theory Spec2Isabelle
  imports Complex_Main
begin

section \<open>Element types, operator tags, errors\<close>

text \<open>
  The library is generic in its element type \<open>T\<close>. Every arithmetic entry point
  selects its code by \<open>T\<close> at compile time (\<open>if constexpr (std::is_same_v<T, double>)\<close>,
  or a template specialisation for \<open>double\<close> and for \<open>float\<close>); the model passes
  that selection as a value. Element values are taken from a field: the model follows the
  arithmetic of the kernels exactly and leaves floating-point rounding out.
\<close>

datatype elem_type = Double | Float | Generic

text \<open>\<open>enum class OPType\<close> of both container families.\<close>

datatype OPType = Add | Sub | SubLeft | Mul | Div | DivLeft | Assign

text \<open>
  Exceptions and undefined behaviour, as values.
  \<^item> \<open>DimensionError\<close>, \<open>SizeMismatch\<close>: the two \<open>std::runtime_error\<close>s of \<open>checkShape\<close>
    (Tensor family), with the numbers their messages print;
  \<^item> \<open>LinalgSizeError\<close>: \<open>std::runtime_error(LINALGSIZEERROR)\<close> of the size checks of
    the MatrixVector family;
  \<^item> \<open>AssignSizeMismatch\<close>: the \<open>"SIZE MISMATCH IN ASSIGNMENT"\<close> error of
    \<open>Vector::operator=\<close> in the MatrixVector family;
  \<^item> \<open>BadAlloc\<close>: \<open>std::bad_alloc\<close>;
  \<^item> \<open>OutOfBounds\<close>, \<open>NullPointer\<close>, \<open>InvalidFree\<close>, \<open>IndeterminateRead\<close>: undefined
    behaviour (an element access outside the buffer, an access through a pointer that
    points to no array, \<open>std::free\<close> of a pointer that is not a live block, the read of
    a pointer that was never written);
  \<^item> \<open>IllFormed\<close>: the kernel that the dispatch names has no definition or a body that
    does not type-check, so the program that needs it is rejected by the compiler.
\<close>

datatype error =
    DimensionError nat nat
  | SizeMismatch "nat list" "nat list"
  | LinalgSizeError
  | AssignSizeMismatch nat nat
  | BadAlloc
  | OutOfBounds
  | NullPointer
  | InvalidFree
  | IndeterminateRead
  | IllFormed

text \<open>Sequencing of two statements, the second of which runs only if the first returns.\<close>

definition andThen :: "error + 'a \<Rightarrow> ('a \<Rightarrow> error + 'b) \<Rightarrow> error + 'b" where
  "andThen m f = (case m of Inl e \<Rightarrow> Inl e | Inr x \<Rightarrow> f x)"

section \<open>Elementwise loops over buffers\<close>

text \<open>
  A buffer is the list of the elements behind a container's \<open>ptr()\<close>.
  \<open>loop n step d\<close> is \<open>for (size_t i = 0; i < n; i++) step(i)\<close> on the buffer \<open>d\<close>:
  it runs \<open>step 0\<close>, \<open>step 1\<close>, ... in this order.
\<close>

primrec loop :: "nat \<Rightarrow> (nat \<Rightarrow> 'a list \<Rightarrow> 'a list) \<Rightarrow> 'a list \<Rightarrow> 'a list" where
  "loop 0 step d = d"
| "loop (Suc n) step d = step n (loop n step d)"

text \<open>
  \<open>for_each n body d\<close> is the loop \<open>for i < n: d[i] = body(i, d[i])\<close>. Element access is
  unchecked in the source (\<open>operator[]\<close> is \<open>ptr()[i]\<close>), so a write past the end of
  \<open>d\<close> is undefined behaviour.
\<close>

definition for_each :: "nat \<Rightarrow> (nat \<Rightarrow> 'a \<Rightarrow> 'a) \<Rightarrow> 'a list \<Rightarrow> error + 'a list" where
  "for_each n body d =
     (if length d < n then Inl OutOfBounds
      else Inr (loop n (\<lambda>i d'. d'[i := body i (d' ! i)]) d))"

text \<open>
  The loops whose body reads \<open>x[i]\<close> of one or two operand buffers:
  \<open>zip_loop n f d x\<close> is \<open>for i < n: d[i] = f(d[i], x[i])\<close>, and
  \<open>zip_loop2 n f d x y\<close> is \<open>for i < n: d[i] = f(d[i], x[i], y[i])\<close>.
  Reading past the end of an operand is undefined behaviour.
\<close>

definition zip_loop :: "nat \<Rightarrow> ('a \<Rightarrow> 'a \<Rightarrow> 'a) \<Rightarrow> 'a list \<Rightarrow> 'a list \<Rightarrow> error + 'a list" where
  "zip_loop n f d x =
     (if length x < n then Inl OutOfBounds else for_each n (\<lambda>i di. f di (x ! i)) d)"

definition zip_loop2 ::
  "nat \<Rightarrow> ('a \<Rightarrow> 'a \<Rightarrow> 'a \<Rightarrow> 'a) \<Rightarrow> 'a list \<Rightarrow> 'a list \<Rightarrow> 'a list \<Rightarrow> error + 'a list" where
  "zip_loop2 n f d x y =
     (if length x < n \<or> length y < n then Inl OutOfBounds
      else for_each n (\<lambda>i di. f di (x ! i) (y ! i)) d)"

text \<open>\<open>std::fma(x, y, z)\<close> computes \<open>x * y + z\<close> (with one rounding, which the model drops).\<close>

definition fma :: "'a::field \<Rightarrow> 'a \<Rightarrow> 'a \<Rightarrow> 'a" where
  "fma x y z = x * y + z"

text \<open>
  \<open>cblas_daxpy(n, alpha, x, incx, y, incy)\<close> and \<open>cblas_saxpy\<close> belong to the BLAS library
  the repository links against (\<open>armpl.h\<close>); they are modelled from the BLAS contract:
  \<open>y[i * incy] += alpha * x[i * incx]\<close> for \<open>i < n\<close>. Every call in the repository passes
  \<open>incy = 1\<close> (\<open>stride()\<close> is the constant 1), and \<open>incx\<close> is 1 for a container operand and 0
  for the one-element array that broadcasts a scalar.
\<close>

definition cblas_axpy :: "nat \<Rightarrow> 'a::field \<Rightarrow> 'a list \<Rightarrow> nat \<Rightarrow> 'a list \<Rightarrow> error + 'a list" where
  "cblas_axpy n alpha x incx y =
     (if 0 < n \<and> length x \<le> (n - 1) * incx then Inl OutOfBounds
      else for_each n (\<lambda>i yi. yi + alpha * x ! (i * incx)) y)"

text \<open>
  The atomic operations (\<open>NOBLAS ATOMIC OPERATIONS\<close>), which both families define with
  the same bodies. Each loops over \<open>a.size()\<close>, the size of its first argument. The
  suffix \<open>_T\<close> marks the overload whose second argument is a container, \<open>_S\<close> the one
  whose second argument is a scalar.
\<close>

definition add_T :: "'a::field list \<Rightarrow> 'a list \<Rightarrow> error + 'a list" where
  "add_T a b = zip_loop (length a) (\<lambda>ai bi. ai + bi) a b"

definition add_S :: "'a::field list \<Rightarrow> 'a \<Rightarrow> error + 'a list" where
  "add_S a b = for_each (length a) (\<lambda>i ai. ai + b) a"

definition sub_T :: "'a::field list \<Rightarrow> 'a list \<Rightarrow> error + 'a list" where
  "sub_T a b = zip_loop (length a) (\<lambda>ai bi. ai - bi) a b"

definition sub_S :: "'a::field list \<Rightarrow> 'a \<Rightarrow> error + 'a list" where
  "sub_S a b = for_each (length a) (\<lambda>i ai. ai - b) a"

definition subLeft_T :: "'a::field list \<Rightarrow> 'a list \<Rightarrow> error + 'a list" where
  "subLeft_T a b = zip_loop (length a) (\<lambda>ai bi. bi - ai) a b"

definition subLeft_S :: "'a::field list \<Rightarrow> 'a \<Rightarrow> error + 'a list" where
  "subLeft_S a b = for_each (length a) (\<lambda>i ai. b - ai) a"

definition mul_T :: "'a::field list \<Rightarrow> 'a list \<Rightarrow> error + 'a list" where
  "mul_T a b = zip_loop (length a) (\<lambda>ai bi. ai * bi) a b"

definition mul_S :: "'a::field list \<Rightarrow> 'a \<Rightarrow> error + 'a list" where
  "mul_S a b = for_each (length a) (\<lambda>i ai. ai * b) a"

definition div_T :: "'a::field list \<Rightarrow> 'a list \<Rightarrow> error + 'a list" where
  "div_T a b = zip_loop (length a) (\<lambda>ai bi. ai / bi) a b"

definition div_S :: "'a::field list \<Rightarrow> 'a \<Rightarrow> error + 'a list" where
  "div_S a b = for_each (length a) (\<lambda>i ai. ai / b) a"

definition divLeft_T :: "'a::field list \<Rightarrow> 'a list \<Rightarrow> error + 'a list" where
  "divLeft_T a b = zip_loop (length a) (\<lambda>ai bi. bi / ai) a b"

definition divLeft_S :: "'a::field list \<Rightarrow> 'a \<Rightarrow> error + 'a list" where
  "divLeft_S a b = for_each (length a) (\<lambda>i ai. b / ai) a"

text \<open>\<open>copyTo(a, b)\<close> is \<open>std::memcpy(a(), b(), a.size() * sizeof(T))\<close>.\<close>

definition copyTo :: "'a list \<Rightarrow> 'a list \<Rightarrow> error + 'a list" where
  "copyTo a b = zip_loop (length a) (\<lambda>ai bi. bi) a b"

text \<open>\<open>setConstant(val)\<close> is \<open>std::fill_n(ptr(), size(), T(val))\<close>; \<open>setOne()\<close> fills with 1.\<close>

definition setConstant :: "'a list \<Rightarrow> 'a \<Rightarrow> error + 'a list" where
  "setConstant a val = for_each (length a) (\<lambda>i ai. val) a"

definition setOne :: "'a::field list \<Rightarrow> error + 'a list" where
  "setOne a = setConstant a 1"

section \<open>Tensor family: containers as seen by the arithmetic\<close>

text \<open>
  The arithmetic operators of \<open>Tensor\<close> read a container through \<open>shape()\<close>, \<open>size()\<close> and
  the \<open>size()\<close> elements behind \<open>ptr()\<close>. A \<open>tview\<close> holds the realized shape and those
  elements; \<open>size()\<close> is the number of elements. The storage behind \<open>ptr()\<close> is modelled
  in the sections on storage below. Destination and operands are distinct containers here:
  a descriptor borrows its operands, which stay unmodified while it is consumed.
\<close>

record 'a tview =
  shape :: "nat list"
  elems :: "'a list"

text \<open>
  \<open>checkShape(a1, a2)\<close>: the ranks must agree, then every extent. The messages print
  the two ranks, or the two shapes.
\<close>

definition checkShape :: "nat list \<Rightarrow> nat list \<Rightarrow> error + unit" where
  "checkShape a1 a2 =
     (if length a1 \<noteq> length a2 then Inl (DimensionError (length a1) (length a2))
      else if list_ex (\<lambda>i. a1 ! i \<noteq> a2 ! i) [0..<length a1] then Inl (SizeMismatch a1 a2)
      else Inr ())"

text \<open>
  Scalar-combine descriptor \<open>STOP<T, _op, sa...>\<close>: the operand \<open>vec\<close> (by reference),
  the \<open>scalar\<close>, and the tag \<open>op\<close> of the operator that built it.
\<close>

datatype 'a STOP = STOP "'a tview" 'a OPType

text \<open>The operators that build descriptors (\<open>Tensor op scalar\<close>, \<open>scalar op Tensor\<close>).\<close>

definition Tensor_plus_scalar :: "'a tview \<Rightarrow> 'a \<Rightarrow> 'a STOP" where
  "Tensor_plus_scalar a scalar = STOP a scalar Add"

definition scalar_plus_Tensor :: "'a \<Rightarrow> 'a tview \<Rightarrow> 'a STOP" where
  "scalar_plus_Tensor scalar a = STOP a scalar Add"

definition Tensor_minus_scalar :: "'a tview \<Rightarrow> 'a \<Rightarrow> 'a STOP" where
  "Tensor_minus_scalar a scalar = STOP a scalar Sub"

definition scalar_minus_Tensor :: "'a \<Rightarrow> 'a tview \<Rightarrow> 'a STOP" where
  "scalar_minus_Tensor scalar a = STOP a scalar SubLeft"

definition Tensor_times_scalar :: "'a tview \<Rightarrow> 'a \<Rightarrow> 'a STOP" where
  "Tensor_times_scalar a scalar = STOP a scalar Mul"

definition scalar_times_Tensor :: "'a \<Rightarrow> 'a tview \<Rightarrow> 'a STOP" where
  "scalar_times_Tensor scalar a = STOP a scalar Mul"

definition Tensor_div_scalar :: "'a tview \<Rightarrow> 'a \<Rightarrow> 'a STOP" where
  "Tensor_div_scalar a scalar = STOP a scalar Div"

definition scalar_div_Tensor :: "'a \<Rightarrow> 'a tview \<Rightarrow> 'a STOP" where
  "scalar_div_Tensor scalar a = STOP a scalar DivLeft"

subsection \<open>The kernels \<open>STOPImpl<T, source, destination>::apply\<close>\<close>

text \<open>
  A kernel takes the elements of \<open>dest\<close>, the elements \<open>v\<close> of \<open>exp.vec\<close> and the scalar
  \<open>s = exp.scalar\<close>, and returns the new elements of \<open>dest\<close>. In each table the first tag
  is the source operator, the second the destination operator; \<open>None\<close> marks a pair for
  which the source defines no specialisation.

  The primary template \<open>STOPImpl\<close> is only declared. The generic specialisations (any
  \<open>T\<close>) cover the destinations \<open>Add\<close>, \<open>Sub\<close>, \<open>Mul\<close>, \<open>Div\<close>; there is none for \<open>Assign\<close>.
\<close>

fun STOPImpl_generic ::
  "OPType \<Rightarrow> OPType \<Rightarrow> ('a::field list \<Rightarrow> 'a list \<Rightarrow> 'a \<Rightarrow> error + 'a list) option" where
  "STOPImpl_generic Add Add =
     Some (\<lambda>dest v s. andThen (add_S dest s) (\<lambda>dest. add_T dest v))"
| "STOPImpl_generic Sub Add =
     Some (\<lambda>dest v s. andThen (add_T dest v) (\<lambda>dest. sub_S dest s))"
| "STOPImpl_generic SubLeft Add =
     Some (\<lambda>dest v s. andThen (sub_T dest v) (\<lambda>dest. add_S dest s))"
| "STOPImpl_generic Mul Add =
     Some (\<lambda>dest v s. zip_loop (length v) (\<lambda>di vi. fma s vi di) dest v)"
| "STOPImpl_generic Div Add =
     Some (\<lambda>dest v s. let sc = 1 / s in zip_loop (length v) (\<lambda>di vi. fma sc vi di) dest v)"
| "STOPImpl_generic DivLeft Add =
     Some (\<lambda>dest v s. zip_loop (length v) (\<lambda>di vi. fma s (1 / vi) di) dest v)"
| "STOPImpl_generic Add Sub =
     Some (\<lambda>dest v s. andThen (sub_S dest s) (\<lambda>dest. sub_T dest v))"
| "STOPImpl_generic Sub Sub =
     Some (\<lambda>dest v s. andThen (sub_T dest v) (\<lambda>dest. add_S dest s))"
| "STOPImpl_generic SubLeft Sub =
     Some (\<lambda>dest v s. andThen (add_T dest v) (\<lambda>dest. sub_S dest s))"
| "STOPImpl_generic Mul Sub =
     Some (\<lambda>dest v s. zip_loop (length v) (\<lambda>di vi. fma (- s) vi di) dest v)"
| "STOPImpl_generic Div Sub =
     Some (\<lambda>dest v s. let sc = (- 1) / s in zip_loop (length v) (\<lambda>di vi. fma sc vi di) dest v)"
| "STOPImpl_generic DivLeft Sub =
     Some (\<lambda>dest v s. zip_loop (length v) (\<lambda>di vi. fma (- s) (1 / vi) di) dest v)"
| "STOPImpl_generic Add Mul =
     Some (\<lambda>dest v s. zip_loop (length v) (\<lambda>di vi. fma di vi (di * s)) dest v)"
| "STOPImpl_generic Sub Mul =
     Some (\<lambda>dest v s. zip_loop (length v) (\<lambda>di vi. fma di vi ((- di) * s)) dest v)"
| "STOPImpl_generic SubLeft Mul =
     Some (\<lambda>dest v s. zip_loop (length v) (\<lambda>di vi. fma di (- vi) (di * s)) dest v)"
| "STOPImpl_generic Mul Mul =
     Some (\<lambda>dest v s. andThen (mul_T dest v) (\<lambda>dest. mul_S dest s))"
| "STOPImpl_generic Div Mul =
     Some (\<lambda>dest v s. andThen (div_S dest s) (\<lambda>dest. mul_T dest v))"
| "STOPImpl_generic DivLeft Mul =
     Some (\<lambda>dest v s. andThen (div_T dest v) (\<lambda>dest. mul_S dest s))"
| "STOPImpl_generic Add Div =
     Some (\<lambda>dest v s. zip_loop (length v) (\<lambda>di vi. di / (vi + s)) dest v)"
| "STOPImpl_generic Sub Div =
     Some (\<lambda>dest v s. zip_loop (length v) (\<lambda>di vi. di / (vi - s)) dest v)"
| "STOPImpl_generic SubLeft Div =
     Some (\<lambda>dest v s. zip_loop (length v) (\<lambda>di vi. di / (s - vi)) dest v)"
| "STOPImpl_generic Mul Div =
     Some (\<lambda>dest v s. andThen (div_S dest s) (\<lambda>dest. div_T dest v))"
| "STOPImpl_generic Div Div =
     Some (\<lambda>dest v s. andThen (mul_S dest s) (\<lambda>dest. div_T dest v))"
| "STOPImpl_generic DivLeft Div =
     Some (\<lambda>dest v s. andThen (mul_T dest v) (\<lambda>dest. div_S dest s))"
| "STOPImpl_generic _ _ = None"

text \<open>
  The specialisations for \<open>double\<close>. The \<open>SVOPImpl\<close> and \<open>SMOPImpl\<close> specialisations for
  \<open>double\<close> of the MatrixVector family have the same bodies. In the \<open>Assign\<close> rows
  \<open>dest = exp.vec\<close> is the container assignment of the family, here the parameter
  \<open>assign\<close>.
\<close>

fun scalar_blas ::
  "('a::field list \<Rightarrow> 'a list \<Rightarrow> error + 'a list) \<Rightarrow> OPType \<Rightarrow> OPType \<Rightarrow>
   ('a list \<Rightarrow> 'a list \<Rightarrow> 'a \<Rightarrow> error + 'a list) option" where
  "scalar_blas assign Add Add =
     Some (\<lambda>dest v s. andThen (cblas_axpy (length v) 1 v 1 dest) (\<lambda>dest. let x = [s] in cblas_axpy (length v) 1 x 0 dest))"
| "scalar_blas assign Sub Add =
     Some (\<lambda>dest v s. andThen (cblas_axpy (length dest) 1 v 1 dest) (\<lambda>dest. let x = [(- s)] in cblas_axpy (length v) 1 x 0 dest))"
| "scalar_blas assign SubLeft Add =
     Some (\<lambda>dest v s. andThen (cblas_axpy (length dest) (- 1) v 1 dest) (\<lambda>dest. let x = [s] in cblas_axpy (length v) 1 x 0 dest))"
| "scalar_blas assign Mul Add =
     Some (\<lambda>dest v s. zip_loop (length v) (\<lambda>di vi. fma s vi di) dest v)"
| "scalar_blas assign Div Add =
     Some (\<lambda>dest v s. zip_loop (length v) (\<lambda>di vi. fma (1 / s) vi di) dest v)"
| "scalar_blas assign DivLeft Add =
     Some (\<lambda>dest v s. zip_loop (length v) (\<lambda>di vi. fma s (1 / vi) di) dest v)"
| "scalar_blas assign Add Sub =
     Some (\<lambda>dest v s. andThen (cblas_axpy (length v) (- 1) v 1 dest) (\<lambda>dest. let x = [(- s)] in cblas_axpy (length v) 1 x 0 dest))"
| "scalar_blas assign Sub Sub =
     Some (\<lambda>dest v s. andThen (cblas_axpy (length v) (- 1) v 1 dest) (\<lambda>dest. let x = [s] in cblas_axpy (length v) 1 x 0 dest))"
| "scalar_blas assign SubLeft Sub =
     Some (\<lambda>dest v s. andThen (cblas_axpy (length v) 1 v 1 dest) (\<lambda>dest. let x = [(- s)] in cblas_axpy (length v) 1 x 0 dest))"
| "scalar_blas assign Mul Sub =
     Some (\<lambda>dest v s. zip_loop (length v) (\<lambda>di vi. fma (- s) vi di) dest v)"
| "scalar_blas assign Div Sub =
     Some (\<lambda>dest v s. zip_loop (length v) (\<lambda>di vi. fma ((- 1) / s) vi di) dest v)"
| "scalar_blas assign DivLeft Sub =
     Some (\<lambda>dest v s. zip_loop (length v) (\<lambda>di vi. fma (- s) (1 / vi) di) dest v)"
| "scalar_blas assign Add Mul =
     Some (\<lambda>dest v s. zip_loop (length v) (\<lambda>di vi. fma di vi (di * s)) dest v)"
| "scalar_blas assign Sub Mul =
     Some (\<lambda>dest v s. zip_loop (length v) (\<lambda>di vi. fma di vi ((- di) * s)) dest v)"
| "scalar_blas assign SubLeft Mul =
     Some (\<lambda>dest v s. zip_loop (length v) (\<lambda>di vi. fma di (- vi) (di * s)) dest v)"
| "scalar_blas assign Mul Mul =
     Some (\<lambda>dest v s. andThen (mul_S dest s) (\<lambda>dest. mul_T dest v))"
| "scalar_blas assign Div Mul =
     Some (\<lambda>dest v s. andThen (div_S dest s) (\<lambda>dest. mul_T dest v))"
| "scalar_blas assign DivLeft Mul =
     Some (\<lambda>dest v s. andThen (div_T dest v) (\<lambda>dest. mul_S dest s))"
| "scalar_blas assign Add Div =
     Some (\<lambda>dest v s. zip_loop (length v) (\<lambda>di vi. di / (vi + s)) dest v)"
| "scalar_blas assign Sub Div =
     Some (\<lambda>dest v s. zip_loop (length v) (\<lambda>di vi. di / (vi - s)) dest v)"
| "scalar_blas assign SubLeft Div =
     Some (\<lambda>dest v s. zip_loop (length v) (\<lambda>di vi. di / (s - vi)) dest v)"
| "scalar_blas assign Mul Div =
     Some (\<lambda>dest v s. andThen (div_S dest s) (\<lambda>dest. div_T dest v))"
| "scalar_blas assign Div Div =
     Some (\<lambda>dest v s. andThen (mul_S dest s) (\<lambda>dest. div_T dest v))"
| "scalar_blas assign DivLeft Div =
     Some (\<lambda>dest v s. andThen (mul_T dest v) (\<lambda>dest. div_S dest s))"
| "scalar_blas assign Add Assign =
     Some (\<lambda>dest v s. andThen (assign dest v) (\<lambda>dest. let x = [s] in cblas_axpy (length v) 1 x 0 dest))"
| "scalar_blas assign Sub Assign =
     Some (\<lambda>dest v s. andThen (assign dest v) (\<lambda>dest. let x = [(- s)] in cblas_axpy (length v) 1 x 0 dest))"
| "scalar_blas assign SubLeft Assign =
     Some (\<lambda>dest v s. andThen (assign dest v) (\<lambda>dest. andThen (mul_S dest (- 1)) (\<lambda>dest. let x = [s] in cblas_axpy (length v) 1 x 0 dest)))"
| "scalar_blas assign Mul Assign =
     Some (\<lambda>dest v s. andThen (assign dest v) (\<lambda>dest. mul_S dest s))"
| "scalar_blas assign Div Assign =
     Some (\<lambda>dest v s. andThen (assign dest v) (\<lambda>dest. div_S dest s))"
| "scalar_blas assign DivLeft Assign =
     Some (\<lambda>dest v s. andThen (setConstant dest s) (\<lambda>dest. div_T dest v))"
| "scalar_blas assign _ _ = None"

text \<open>
  The specialisations for \<open>float\<close> repeat the text of those for \<open>double\<close> with
  \<open>cblas_saxpy\<close> for \<open>cblas_daxpy\<close>, in both families. One of them does not survive the
  change of type: the body for source \<open>SubLeft\<close>, destination \<open>Assign\<close> calls
  \<^verbatim>\<open>mul(dest, -1.0);\<close>
  and \<open>mul(Tensor<T, sa...>& a, T b)\<close> (\<open>mul(Vector<sa, T>& a, T b)\<close>) deduces \<open>T\<close> as
  \<open>float\<close> from \<open>dest\<close> and as \<open>double\<close> from \<open>-1.0\<close>. No overload matches, so this
  specialisation cannot be instantiated.
\<close>

definition scalar_blas_float ::
  "('a::field list \<Rightarrow> 'a list \<Rightarrow> error + 'a list) \<Rightarrow> OPType \<Rightarrow> OPType \<Rightarrow>
   ('a list \<Rightarrow> 'a list \<Rightarrow> 'a \<Rightarrow> error + 'a list) option" where
  "scalar_blas_float assign source destination =
     (if source = SubLeft \<and> destination = Assign then None
      else scalar_blas assign source destination)"

text \<open>
  \<open>Tensor::operator=(const Tensor&)\<close> as the \<open>Assign\<close> kernels use it: they run after the
  dispatching operator has passed \<open>checkShape(shape(), exp.vec.shape())\<close>, which is the
  check the assignment repeats; what remains is
  \<open>std::memcpy(ptr(), other.ptr(), sizeof(T) * other.size())\<close>.
\<close>

definition Tensor_assign_elems :: "'a list \<Rightarrow> 'a list \<Rightarrow> error + 'a list" where
  "Tensor_assign_elems dest other = zip_loop (length other) (\<lambda>di oi. oi) dest other"

definition STOPImpl ::
  "elem_type \<Rightarrow> OPType \<Rightarrow> OPType \<Rightarrow>
   ('a::field list \<Rightarrow> 'a list \<Rightarrow> 'a \<Rightarrow> error + 'a list) option" where
  "STOPImpl ty source destination =
     (case ty of
        Generic \<Rightarrow> STOPImpl_generic source destination
      | Double \<Rightarrow> scalar_blas Tensor_assign_elems source destination
      | Float \<Rightarrow> scalar_blas_float Tensor_assign_elems source destination)"

subsection \<open>The consuming operators of \<open>Tensor\<close>\<close>

definition with_elems :: "'a tview \<Rightarrow> error + 'a list \<Rightarrow> error + 'a tview" where
  "with_elems this r = (case r of Inl e \<Rightarrow> Inl e | Inr xs \<Rightarrow> Inr (this\<lparr>elems := xs\<rparr>))"

text \<open>
  \<open>dest OP= descriptor\<close> and \<open>dest = descriptor\<close>: \<open>checkShape(shape(), a.vec.shape())\<close>,
  then the kernel \<open>STOPImpl<T, _op, destination>\<close>. The kernel is chosen at compile time,
  so a missing kernel rejects the program before anything runs.
\<close>

definition Tensor_consume ::
  "elem_type \<Rightarrow> OPType \<Rightarrow> 'a::field tview \<Rightarrow> 'a STOP \<Rightarrow> error + 'a tview" where
  "Tensor_consume ty destination this a =
     (case a of STOP vec scalar op \<Rightarrow>
        (case STOPImpl ty op destination of
           None \<Rightarrow> Inl IllFormed
         | Some apply \<Rightarrow>
             andThen (checkShape (shape this) (shape vec))
               (\<lambda>_. with_elems this (apply (elems this) (elems vec) scalar))))"

definition Tensor_plus_assign_STOP :: "elem_type \<Rightarrow> 'a::field tview \<Rightarrow> 'a STOP \<Rightarrow> error + 'a tview" where
  "Tensor_plus_assign_STOP ty this a = Tensor_consume ty Add this a"

definition Tensor_minus_assign_STOP :: "elem_type \<Rightarrow> 'a::field tview \<Rightarrow> 'a STOP \<Rightarrow> error + 'a tview" where
  "Tensor_minus_assign_STOP ty this a = Tensor_consume ty Sub this a"

definition Tensor_times_assign_STOP :: "elem_type \<Rightarrow> 'a::field tview \<Rightarrow> 'a STOP \<Rightarrow> error + 'a tview" where
  "Tensor_times_assign_STOP ty this a = Tensor_consume ty Mul this a"

definition Tensor_div_assign_STOP :: "elem_type \<Rightarrow> 'a::field tview \<Rightarrow> 'a STOP \<Rightarrow> error + 'a tview" where
  "Tensor_div_assign_STOP ty this a = Tensor_consume ty Div this a"

definition Tensor_assign_STOP :: "elem_type \<Rightarrow> 'a::field tview \<Rightarrow> 'a STOP \<Rightarrow> error + 'a tview" where
  "Tensor_assign_STOP ty this a = Tensor_consume ty Assign this a"

text \<open>
  Compound assignment with a plain container or a scalar
  (\<open>Tensor::operator+=\<close>, \<open>-=\<close>, \<open>*=\<close>, \<open>/=\<close>). \<open>size()\<close> is the number of elements of
  \<open>this\<close>, and \<open>aa\<close> is the one-element array that holds the scalar.
\<close>

definition Tensor_plus_assign :: "elem_type \<Rightarrow> 'a::field tview \<Rightarrow> 'a tview \<Rightarrow> error + 'a tview" where
  "Tensor_plus_assign ty this a =
     andThen (checkShape (shape this) (shape a))
       (\<lambda>_. with_elems this
          (case ty of
             Double \<Rightarrow> cblas_axpy (length (elems this)) 1 (elems a) 1 (elems this)
           | Float \<Rightarrow> cblas_axpy (length (elems this)) 1 (elems a) 1 (elems this)
           | Generic \<Rightarrow> add_T (elems this) (elems a)))"

definition Tensor_plus_assign_scalar :: "elem_type \<Rightarrow> 'a::field tview \<Rightarrow> 'a \<Rightarrow> error + 'a tview" where
  "Tensor_plus_assign_scalar ty this a =
     with_elems this
       (case ty of
          Double \<Rightarrow> (let aa = [a] in cblas_axpy (length (elems this)) 1 aa 0 (elems this))
        | Float \<Rightarrow> (let aa = [a] in cblas_axpy (length (elems this)) 1 aa 0 (elems this))
        | Generic \<Rightarrow> add_S (elems this) a)"

definition Tensor_minus_assign :: "elem_type \<Rightarrow> 'a::field tview \<Rightarrow> 'a tview \<Rightarrow> error + 'a tview" where
  "Tensor_minus_assign ty this a =
     andThen (checkShape (shape this) (shape a))
       (\<lambda>_. with_elems this
          (case ty of
             Double \<Rightarrow> cblas_axpy (length (elems this)) (- 1) (elems a) 1 (elems this)
           | Float \<Rightarrow> cblas_axpy (length (elems this)) (- 1) (elems a) 1 (elems this)
           | Generic \<Rightarrow> add_T (elems this) (elems a)))"

definition Tensor_minus_assign_scalar :: "elem_type \<Rightarrow> 'a::field tview \<Rightarrow> 'a \<Rightarrow> error + 'a tview" where
  "Tensor_minus_assign_scalar ty this a =
     with_elems this
       (case ty of
          Double \<Rightarrow> (let aa = [a] in cblas_axpy (length (elems this)) (- 1) aa 0 (elems this))
        | Float \<Rightarrow> (let aa = [a] in cblas_axpy (length (elems this)) (- 1) aa 0 (elems this))
        | Generic \<Rightarrow> add_S (elems this) a)"

definition Tensor_times_assign :: "'a::field tview \<Rightarrow> 'a tview \<Rightarrow> error + 'a tview" where
  "Tensor_times_assign this a =
     andThen (checkShape (shape this) (shape a))
       (\<lambda>_. with_elems this (mul_T (elems this) (elems a)))"

definition Tensor_times_assign_scalar :: "'a::field tview \<Rightarrow> 'a \<Rightarrow> error + 'a tview" where
  "Tensor_times_assign_scalar this a = with_elems this (mul_S (elems this) a)"

definition Tensor_div_assign :: "'a::field tview \<Rightarrow> 'a tview \<Rightarrow> error + 'a tview" where
  "Tensor_div_assign this a =
     andThen (checkShape (shape this) (shape a))
       (\<lambda>_. with_elems this (div_T (elems this) (elems a)))"

definition Tensor_div_assign_scalar :: "'a::field tview \<Rightarrow> 'a \<Rightarrow> error + 'a tview" where
  "Tensor_div_assign_scalar this a = with_elems this (div_S (elems this) a)"

subsection \<open>The eager operators on \<open>Vector\<close> of the Tensor family\<close>

text \<open>
  After the dispatch section the Tensor header defines \<open>operator+ - * /\<close> for
  \<open>(Vector, Vector)\<close>, \<open>(Vector, T)\<close> and \<open>(T, Vector)\<close>. Each returns a \<open>Vector\<close>:
  \<open>Vector<sz, T> c = a; c OP= b; return c;\<close>. For a \<open>Vector\<close> argument these overloads
  match exactly (the descriptor-building operators take the base class \<open>Tensor\<close>), so they
  are the ones an expression \<open>s - a\<close> or \<open>s / a\<close> on a \<open>Vector a\<close> calls. The
  copy-initialisation gives \<open>c\<close> the shape and the elements of \<open>a\<close>.
\<close>

definition Vector_minus_scalar :: "elem_type \<Rightarrow> 'a::field tview \<Rightarrow> 'a \<Rightarrow> error + 'a tview" where
  "Vector_minus_scalar ty a b = (let c = a in Tensor_minus_assign_scalar ty c b)"

definition scalar_minus_Vector :: "elem_type \<Rightarrow> 'a \<Rightarrow> 'a::field tview \<Rightarrow> error + 'a tview" where
  "scalar_minus_Vector ty b a = (let c = a in Tensor_minus_assign_scalar ty c b)"

definition Vector_div_scalar :: "'a::field tview \<Rightarrow> 'a \<Rightarrow> error + 'a tview" where
  "Vector_div_scalar a b = (let c = a in Tensor_div_assign_scalar c b)"

definition scalar_div_Vector :: "'a \<Rightarrow> 'a::field tview \<Rightarrow> error + 'a tview" where
  "scalar_div_Vector b a = (let c = a in Tensor_div_assign_scalar c b)"

section \<open>MatrixVector family: \<open>Vector\<close> arithmetic\<close>

text \<open>
  A \<open>Vector\<close> of the MatrixVector family has a length and a buffer; the arithmetic sees the
  list of its \<open>size()\<close> elements. \<open>Matrix\<close> repeats every definition of this section with
  \<open>SMOP\<close>, \<open>MMOP\<close> for \<open>SVOP\<close>, \<open>VVOP\<close> (the kernel bodies are the same text).
\<close>

datatype 'a SVOP = SVOP "'a list" 'a OPType

datatype 'a VVOP = VVOP "'a list" "'a list" OPType

text \<open>
  Container-combine descriptors are built by \<open>operator+ - * /\<close> on two vectors, after
  \<open>_LINALG_VECVEC_SIZECHECK\<close>: \<open>if (a.size() != b.size()) throw\<close>.
\<close>

definition Vector_combine :: "OPType \<Rightarrow> 'a list \<Rightarrow> 'a list \<Rightarrow> error + 'a VVOP" where
  "Vector_combine op a b =
     (if length a \<noteq> length b then Inl LinalgSizeError else Inr (VVOP a b op))"

definition Vector_plus_Vector :: "'a list \<Rightarrow> 'a list \<Rightarrow> error + 'a VVOP" where
  "Vector_plus_Vector a b = Vector_combine Add a b"

definition Vector_minus_Vector :: "'a list \<Rightarrow> 'a list \<Rightarrow> error + 'a VVOP" where
  "Vector_minus_Vector a b = Vector_combine Sub a b"

definition Vector_times_Vector :: "'a list \<Rightarrow> 'a list \<Rightarrow> error + 'a VVOP" where
  "Vector_times_Vector a b = Vector_combine Mul a b"

definition Vector_div_Vector :: "'a list \<Rightarrow> 'a list \<Rightarrow> error + 'a VVOP" where
  "Vector_div_Vector a b = Vector_combine Div a b"

text \<open>
  \<open>Vector::operator=(const Vector&)\<close>: throws on different sizes, else
  \<open>std::memcpy(ptr(), other(), size() * sizeof(T))\<close>.
\<close>

definition Vector_assign :: "'a list \<Rightarrow> 'a list \<Rightarrow> error + 'a list" where
  "Vector_assign this other =
     (if length this \<noteq> length other
      then Inl (AssignSizeMismatch (length this) (length other))
      else zip_loop (length this) (\<lambda>di oi. oi) this other)"

text \<open>
  Compound assignment with a plain vector. \<open>operator-=\<close>, \<open>operator*=\<close> and \<open>operator/=\<close>
  start with \<open>_LINALG_SELFVEC_SIZECHECK\<close> (\<open>if (this->size() != a.size()) throw\<close>);
  \<open>operator+=\<close> calls \<open>add(*this, a)\<close> at once.
\<close>

definition Vector_plus_assign :: "'a::field list \<Rightarrow> 'a list \<Rightarrow> error + 'a list" where
  "Vector_plus_assign this a = add_T this a"

definition Vector_minus_assign :: "'a::field list \<Rightarrow> 'a list \<Rightarrow> error + 'a list" where
  "Vector_minus_assign this a =
     (if length this \<noteq> length a then Inl LinalgSizeError else sub_T this a)"

definition Vector_times_assign :: "'a::field list \<Rightarrow> 'a list \<Rightarrow> error + 'a list" where
  "Vector_times_assign this a =
     (if length this \<noteq> length a then Inl LinalgSizeError else mul_T this a)"

definition Vector_div_assign :: "'a::field list \<Rightarrow> 'a list \<Rightarrow> error + 'a list" where
  "Vector_div_assign this a =
     (if length this \<noteq> length a then Inl LinalgSizeError else div_T this a)"

subsection \<open>The kernels \<open>VVOPImpl<T, sa, sb, source, destination>::apply\<close>\<close>

text \<open>
  A kernel takes the elements of \<open>dest\<close>, \<open>l\<close> of \<open>exp.lhs\<close> and \<open>r\<close> of \<open>exp.rhs\<close>.
  Container-combine descriptors carry the tags \<open>Add\<close>, \<open>Sub\<close>, \<open>Mul\<close>, \<open>Div\<close> only.

  The generic specialisation for source \<open>Sub\<close>, destination \<open>Mul\<close> has the body
  \<^verbatim>\<open>dest[i] = std::fma(dest[i], exp.lhs[i], -dest[i] * exp.rhs);\<close>
  Its third argument multiplies an element by the container \<open>exp.rhs\<close>, not by
  \<open>exp.rhs[i]\<close>: that product is a scalar-combine descriptor, for which \<open>std::fma\<close> has
  no overload. The body does not type-check, so the specialisation cannot be
  instantiated: the entry is \<open>None\<close>. (\<open>MMOPImpl\<close> has the same body.)
\<close>

fun VVOPImpl_generic ::
  "OPType \<Rightarrow> OPType \<Rightarrow> ('a::field list \<Rightarrow> 'a list \<Rightarrow> 'a list \<Rightarrow> error + 'a list) option" where
  "VVOPImpl_generic Add Add =
     Some (\<lambda>dest l r. andThen (add_T dest l) (\<lambda>dest. add_T dest r))"
| "VVOPImpl_generic Sub Add =
     Some (\<lambda>dest l r. andThen (add_T dest l) (\<lambda>dest. sub_T dest r))"
| "VVOPImpl_generic Mul Add =
     Some (\<lambda>dest l r. zip_loop2 (length l) (\<lambda>di li ri. fma li ri di) dest l r)"
| "VVOPImpl_generic Div Add =
     Some (\<lambda>dest l r. zip_loop2 (length l) (\<lambda>di li ri. fma (1 / ri) li di) dest l r)"
| "VVOPImpl_generic Add Sub =
     Some (\<lambda>dest l r. andThen (sub_T dest l) (\<lambda>dest. sub_T dest r))"
| "VVOPImpl_generic Sub Sub =
     Some (\<lambda>dest l r. andThen (sub_T dest l) (\<lambda>dest. add_T dest r))"
| "VVOPImpl_generic Mul Sub =
     Some (\<lambda>dest l r. zip_loop2 (length l) (\<lambda>di li ri. fma (- li) ri di) dest l r)"
| "VVOPImpl_generic Div Sub =
     Some (\<lambda>dest l r. zip_loop2 (length l) (\<lambda>di li ri. fma ((- 1) / ri) li di) dest l r)"
| "VVOPImpl_generic Add Mul =
     Some (\<lambda>dest l r. zip_loop2 (length l) (\<lambda>di li ri. fma di li (di * ri)) dest l r)"
| "VVOPImpl_generic Sub Mul = None"
| "VVOPImpl_generic Mul Mul =
     Some (\<lambda>dest l r. andThen (mul_T dest l) (\<lambda>dest. mul_T dest r))"
| "VVOPImpl_generic Div Mul =
     Some (\<lambda>dest l r. andThen (div_T dest r) (\<lambda>dest. mul_T dest l))"
| "VVOPImpl_generic Add Div =
     Some (\<lambda>dest l r. zip_loop2 (length l) (\<lambda>di li ri. di / (li + ri)) dest l r)"
| "VVOPImpl_generic Sub Div =
     Some (\<lambda>dest l r. zip_loop2 (length l) (\<lambda>di li ri. di / (li - ri)) dest l r)"
| "VVOPImpl_generic Mul Div =
     Some (\<lambda>dest l r. andThen (div_T dest l) (\<lambda>dest. div_T dest r))"
| "VVOPImpl_generic Div Div =
     Some (\<lambda>dest l r. andThen (mul_T dest r) (\<lambda>dest. div_T dest l))"
| "VVOPImpl_generic Add Assign =
     Some (\<lambda>dest l r. andThen (copyTo dest l) (\<lambda>dest. add_T dest r))"
| "VVOPImpl_generic Sub Assign =
     Some (\<lambda>dest l r. andThen (copyTo dest l) (\<lambda>dest. sub_T dest r))"
| "VVOPImpl_generic Mul Assign =
     Some (\<lambda>dest l r. andThen (copyTo dest l) (\<lambda>dest. mul_T dest r))"
| "VVOPImpl_generic Div Assign =
     Some (\<lambda>dest l r. andThen (copyTo dest l) (\<lambda>dest. div_T dest r))"
| "VVOPImpl_generic _ _ = None"

text \<open>The specialisations for \<open>double\<close>; those for \<open>float\<close> repeat them with \<open>cblas_saxpy\<close>.\<close>

fun VVOPImpl_blas ::
  "OPType \<Rightarrow> OPType \<Rightarrow> ('a::field list \<Rightarrow> 'a list \<Rightarrow> 'a list \<Rightarrow> error + 'a list) option" where
  "VVOPImpl_blas Add Add =
     Some (\<lambda>dest l r. andThen (cblas_axpy (length l) 1 l 1 dest) (\<lambda>dest. cblas_axpy (length r) 1 r 1 dest))"
| "VVOPImpl_blas Sub Add =
     Some (\<lambda>dest l r. andThen (cblas_axpy (length l) 1 l 1 dest) (\<lambda>dest. cblas_axpy (length r) (- 1) r 1 dest))"
| "VVOPImpl_blas Mul Add =
     Some (\<lambda>dest l r. zip_loop2 (length l) (\<lambda>di li ri. fma li ri di) dest l r)"
| "VVOPImpl_blas Div Add =
     Some (\<lambda>dest l r. zip_loop2 (length l) (\<lambda>di li ri. fma li (1 / ri) di) dest l r)"
| "VVOPImpl_blas Add Sub =
     Some (\<lambda>dest l r. andThen (cblas_axpy (length l) (- 1) l 1 dest) (\<lambda>dest. cblas_axpy (length r) (- 1) r 1 dest))"
| "VVOPImpl_blas Sub Sub =
     Some (\<lambda>dest l r. andThen (cblas_axpy (length l) (- 1) l 1 dest) (\<lambda>dest. cblas_axpy (length r) 1 r 1 dest))"
| "VVOPImpl_blas Mul Sub =
     Some (\<lambda>dest l r. zip_loop2 (length l) (\<lambda>di li ri. fma (- li) ri di) dest l r)"
| "VVOPImpl_blas Div Sub =
     Some (\<lambda>dest l r. zip_loop2 (length l) (\<lambda>di li ri. fma (- li) (1 / ri) di) dest l r)"
| "VVOPImpl_blas Add Mul =
     Some (\<lambda>dest l r. zip_loop2 (length l) (\<lambda>di li ri. fma di li (di * ri)) dest l r)"
| "VVOPImpl_blas Sub Mul =
     Some (\<lambda>dest l r. zip_loop2 (length l) (\<lambda>di li ri. fma di li ((- di) * ri)) dest l r)"
| "VVOPImpl_blas Mul Mul =
     Some (\<lambda>dest l r. andThen (mul_T dest l) (\<lambda>dest. mul_T dest r))"
| "VVOPImpl_blas Div Mul =
     Some (\<lambda>dest l r. andThen (div_T dest r) (\<lambda>dest. mul_T dest l))"
| "VVOPImpl_blas Add Div =
     Some (\<lambda>dest l r. zip_loop2 (length l) (\<lambda>di li ri. di / (li + ri)) dest l r)"
| "VVOPImpl_blas Sub Div =
     Some (\<lambda>dest l r. zip_loop2 (length l) (\<lambda>di li ri. di / (li - ri)) dest l r)"
| "VVOPImpl_blas Mul Div =
     Some (\<lambda>dest l r. andThen (div_T dest l) (\<lambda>dest. div_T dest r))"
| "VVOPImpl_blas Div Div =
     Some (\<lambda>dest l r. andThen (mul_T dest r) (\<lambda>dest. div_T dest l))"
| "VVOPImpl_blas Add Assign =
     Some (\<lambda>dest l r. andThen (Vector_assign dest l) (\<lambda>dest. cblas_axpy (length r) 1 r 1 dest))"
| "VVOPImpl_blas Sub Assign =
     Some (\<lambda>dest l r. andThen (Vector_assign dest l) (\<lambda>dest. cblas_axpy (length r) (- 1) r 1 dest))"
| "VVOPImpl_blas Mul Assign =
     Some (\<lambda>dest l r. andThen (Vector_assign dest l) (\<lambda>dest. mul_T dest r))"
| "VVOPImpl_blas Div Assign =
     Some (\<lambda>dest l r. andThen (Vector_assign dest l) (\<lambda>dest. div_T dest r))"
| "VVOPImpl_blas _ _ = None"

definition VVOPImpl ::
  "elem_type \<Rightarrow> OPType \<Rightarrow> OPType \<Rightarrow>
   ('a::field list \<Rightarrow> 'a list \<Rightarrow> 'a list \<Rightarrow> error + 'a list) option" where
  "VVOPImpl ty source destination =
     (case ty of
        Generic \<Rightarrow> VVOPImpl_generic source destination
      | Double \<Rightarrow> VVOPImpl_blas source destination
      | Float \<Rightarrow> VVOPImpl_blas source destination)"

text \<open>
  \<open>dest OP= descriptor\<close> and \<open>dest = descriptor\<close> in the MatrixVector family call the
  kernel at once; they have no size check of their own.
\<close>

definition Vector_consume_VVOP ::
  "elem_type \<Rightarrow> OPType \<Rightarrow> 'a::field list \<Rightarrow> 'a VVOP \<Rightarrow> error + 'a list" where
  "Vector_consume_VVOP ty destination this a =
     (case a of VVOP lhs rhs op \<Rightarrow>
        (case VVOPImpl ty op destination of
           None \<Rightarrow> Inl IllFormed
         | Some apply \<Rightarrow> apply this lhs rhs))"

definition Vector_times_assign_VVOP :: "elem_type \<Rightarrow> 'a::field list \<Rightarrow> 'a VVOP \<Rightarrow> error + 'a list" where
  "Vector_times_assign_VVOP ty this a = Vector_consume_VVOP ty Mul this a"

subsection \<open>The kernels \<open>SVOPImpl<T, sa, source, destination>::apply\<close>\<close>

text \<open>
  The generic specialisation for source \<open>SubLeft\<close>, destination \<open>Assign\<close> has the body
  \<^verbatim>\<open>copyTo(dest, exp.vec); mul(dest, -1.0); add(dest, exp.scalar);\<close>
  The call \<open>mul(dest, -1.0)\<close> deduces \<open>T\<close> from \<open>dest\<close> and \<open>double\<close> from \<open>-1.0\<close>, which
  agree for \<open>T = double\<close> only, and \<open>double\<close> has a specialisation of its own. For every
  element type that reaches the generic kernel the body does not type-check: the entry
  is \<open>None\<close>. (\<open>SMOPImpl\<close> has the same body.)
\<close>

fun SVOPImpl_generic ::
  "OPType \<Rightarrow> OPType \<Rightarrow> ('a::field list \<Rightarrow> 'a list \<Rightarrow> 'a \<Rightarrow> error + 'a list) option" where
  "SVOPImpl_generic Add Add =
     Some (\<lambda>dest v s. andThen (add_T dest v) (\<lambda>dest. add_S dest s))"
| "SVOPImpl_generic Sub Add =
     Some (\<lambda>dest v s. andThen (add_T dest v) (\<lambda>dest. sub_S dest s))"
| "SVOPImpl_generic SubLeft Add =
     Some (\<lambda>dest v s. andThen (sub_T dest v) (\<lambda>dest. add_S dest s))"
| "SVOPImpl_generic Mul Add =
     Some (\<lambda>dest v s. zip_loop (length v) (\<lambda>di vi. fma s vi di) dest v)"
| "SVOPImpl_generic Div Add =
     Some (\<lambda>dest v s. zip_loop (length v) (\<lambda>di vi. fma (1 / s) vi di) dest v)"
| "SVOPImpl_generic DivLeft Add =
     Some (\<lambda>dest v s. zip_loop (length v) (\<lambda>di vi. fma s (1 / vi) di) dest v)"
| "SVOPImpl_generic Add Sub =
     Some (\<lambda>dest v s. andThen (sub_T dest v) (\<lambda>dest. sub_S dest s))"
| "SVOPImpl_generic Sub Sub =
     Some (\<lambda>dest v s. andThen (sub_T dest v) (\<lambda>dest. add_S dest s))"
| "SVOPImpl_generic SubLeft Sub =
     Some (\<lambda>dest v s. andThen (add_T dest v) (\<lambda>dest. sub_S dest s))"
| "SVOPImpl_generic Mul Sub =
     Some (\<lambda>dest v s. zip_loop (length v) (\<lambda>di vi. fma (- s) vi di) dest v)"
| "SVOPImpl_generic Div Sub =
     Some (\<lambda>dest v s. zip_loop (length v) (\<lambda>di vi. fma ((- 1) / s) vi di) dest v)"
| "SVOPImpl_generic DivLeft Sub =
     Some (\<lambda>dest v s. zip_loop (length v) (\<lambda>di vi. fma (- s) (1 / vi) di) dest v)"
| "SVOPImpl_generic Add Mul =
     Some (\<lambda>dest v s. zip_loop (length v) (\<lambda>di vi. fma di vi (di * s)) dest v)"
| "SVOPImpl_generic Sub Mul =
     Some (\<lambda>dest v s. zip_loop (length v) (\<lambda>di vi. fma di vi ((- di) * s)) dest v)"
| "SVOPImpl_generic SubLeft Mul =
     Some (\<lambda>dest v s. zip_loop (length v) (\<lambda>di vi. fma di (- vi) (di * s)) dest v)"
| "SVOPImpl_generic Mul Mul =
     Some (\<lambda>dest v s. andThen (mul_S dest s) (\<lambda>dest. mul_T dest v))"
| "SVOPImpl_generic Div Mul =
     Some (\<lambda>dest v s. andThen (div_S dest s) (\<lambda>dest. mul_T dest v))"
| "SVOPImpl_generic DivLeft Mul =
     Some (\<lambda>dest v s. andThen (div_T dest v) (\<lambda>dest. mul_S dest s))"
| "SVOPImpl_generic Add Div =
     Some (\<lambda>dest v s. zip_loop (length v) (\<lambda>di vi. di / (vi + s)) dest v)"
| "SVOPImpl_generic Sub Div =
     Some (\<lambda>dest v s. zip_loop (length v) (\<lambda>di vi. di / (vi - s)) dest v)"
| "SVOPImpl_generic SubLeft Div =
     Some (\<lambda>dest v s. zip_loop (length v) (\<lambda>di vi. di / (s - vi)) dest v)"
| "SVOPImpl_generic Mul Div =
     Some (\<lambda>dest v s. andThen (div_S dest s) (\<lambda>dest. div_T dest v))"
| "SVOPImpl_generic Div Div =
     Some (\<lambda>dest v s. andThen (mul_S dest s) (\<lambda>dest. div_T dest v))"
| "SVOPImpl_generic DivLeft Div =
     Some (\<lambda>dest v s. andThen (mul_T dest v) (\<lambda>dest. div_S dest s))"
| "SVOPImpl_generic Add Assign =
     Some (\<lambda>dest v s. andThen (copyTo dest v) (\<lambda>dest. add_S dest s))"
| "SVOPImpl_generic Sub Assign =
     Some (\<lambda>dest v s. andThen (copyTo dest v) (\<lambda>dest. sub_S dest s))"
| "SVOPImpl_generic SubLeft Assign = None"
| "SVOPImpl_generic Mul Assign =
     Some (\<lambda>dest v s. andThen (copyTo dest v) (\<lambda>dest. mul_S dest s))"
| "SVOPImpl_generic Div Assign =
     Some (\<lambda>dest v s. andThen (copyTo dest v) (\<lambda>dest. div_S dest s))"
| "SVOPImpl_generic DivLeft Assign =
     Some (\<lambda>dest v s. andThen (setOne dest) (\<lambda>dest. andThen (mul_S dest s) (\<lambda>dest. div_T dest v)))"
| "SVOPImpl_generic _ _ = None"

definition SVOPImpl ::
  "elem_type \<Rightarrow> OPType \<Rightarrow> OPType \<Rightarrow>
   ('a::field list \<Rightarrow> 'a list \<Rightarrow> 'a \<Rightarrow> error + 'a list) option" where
  "SVOPImpl ty source destination =
     (case ty of
        Generic \<Rightarrow> SVOPImpl_generic source destination
      | Double \<Rightarrow> scalar_blas Vector_assign source destination
      | Float \<Rightarrow> scalar_blas_float Vector_assign source destination)"

definition Vector_consume_SVOP ::
  "elem_type \<Rightarrow> OPType \<Rightarrow> 'a::field list \<Rightarrow> 'a SVOP \<Rightarrow> error + 'a list" where
  "Vector_consume_SVOP ty destination this a =
     (case a of SVOP vec scalar op \<Rightarrow>
        (case SVOPImpl ty op destination of
           None \<Rightarrow> Inl IllFormed
         | Some apply \<Rightarrow> apply this vec scalar))"

section \<open>Storage of the Tensor family\<close>

subsection \<open>The heap\<close>

text \<open>
  Dynamic buffers live on the C heap. The model's heap is the list of all blocks ever
  allocated, indexed by address; a block is live with its contents, or released.
  Addresses are never reused, so a released block stays recognisable and a stale pointer
  can be told from a live one.
\<close>

datatype 'a block = Live "'a list" | Released

type_synonym 'a heap = "'a block list"

text \<open>
  The values of a \<open>T*\<close>: not yet written (a member without initialiser), null, the
  address of the object's own inline array, or the address of a heap block.
\<close>

datatype ptr = Indeterminate | Null | Static | Heap nat

text \<open>
  What the allocator answers to a request: null, or a new block whose cells hold
  whatever the memory held before (\<open>Fresh c\<close>: cell \<open>i\<close> holds \<open>c i\<close>).
  \<open>std::aligned_alloc(alignment, bytes)\<close> gives a block of \<open>bytes\<close> bytes, which holds
  \<open>bytes div sizeof(T)\<close> cells of the element type; \<open>sizeofT\<close> is \<open>sizeof(T)\<close>.
\<close>

datatype 'a malloc = OutOfMemory | Fresh "nat \<Rightarrow> 'a"

definition aligned_alloc :: "'a malloc \<Rightarrow> nat \<Rightarrow> nat \<Rightarrow> 'a heap \<Rightarrow> ptr \<times> 'a heap" where
  "aligned_alloc env sizeofT bytes h =
     (case env of
        OutOfMemory \<Rightarrow> (Null, h)
      | Fresh c \<Rightarrow> (Heap (length h), h @ [Live (map c [0..<bytes div sizeofT])]))"

text \<open>
  \<open>constexpr alignment = 16\<close> in both headers, and the byte count both families request
  for \<open>n\<close> elements, computed in \<open>size_t\<close>, that is modulo \<open>2 ^ 64\<close>:
  \<open>((sizeof(T) * n + alignment - 1) / alignment) * alignment\<close> in \<open>Tensor::alloc\<close>,
  \<open>alignment * ((len * sizeof(T) + alignment - 1) / alignment)\<close> in
  \<open>ContiguousStorage<T, 0>::alloc\<close>.
\<close>

definition alignment :: nat where
  "alignment = 16"

definition allocedBytes :: "nat \<Rightarrow> nat \<Rightarrow> nat" where
  "allocedBytes sizeofT n =
     (((sizeofT * n + alignment - 1) mod 2 ^ 64) div alignment * alignment) mod 2 ^ 64"

definition storage_bytes :: "nat \<Rightarrow> nat \<Rightarrow> nat" where
  "storage_bytes sizeofT n =
     (alignment * (((n * sizeofT + alignment - 1) mod 2 ^ 64) div alignment)) mod 2 ^ 64"

text \<open>
  \<open>std::free(p)\<close>: nothing for null, releases a live block; undefined behaviour (here
  \<open>None\<close>) for any other pointer, in particular for a block that is already released.
\<close>

definition std_free :: "ptr \<Rightarrow> 'a heap \<Rightarrow> 'a heap option" where
  "std_free p h =
     (case p of
        Null \<Rightarrow> Some h
      | Heap a \<Rightarrow>
          (if a < length h
           then (case h ! a of Live xs \<Rightarrow> Some (h[a := Released]) | Released \<Rightarrow> None)
           else None)
      | _ \<Rightarrow> None)"

subsection \<open>The class \<open>Tensor<T, dims...>\<close>\<close>

text \<open>
  \<open>dims\<close> is the template parameter pack. The union \<open>dataHolder\<close> holds the inline
  array \<open>staticData\<close> (used when \<open>_ctSize > 0\<close>) or the pointer \<open>heapData\<close> (used when
  \<open>_ctSize = 0\<close>); no code path of a given instantiation touches both.
  \<open>data\<close>, \<open>_size\<close> and \<open>_shape\<close> are the other members.
\<close>

record 'a Tensor =
  dims :: "nat list"
  staticData :: "'a list"
  heapData :: ptr
  data :: ptr
  tsize :: nat
  tshape :: "nat list"

text \<open>
  \<open>size_t s = 1; for (d : extents) s *= d;\<close> in \<open>size_t\<close> arithmetic (64 bits). This is
  \<open>_ctSize\<close> on the template pack and the local \<open>s\<close> of \<open>alloc\<close> on the requested shape.
\<close>

definition extent_product :: "nat list \<Rightarrow> nat" where
  "extent_product extents = foldl (\<lambda>s d. (s * d) mod 2 ^ 64) 1 extents"

definition ctSize :: "'a Tensor \<Rightarrow> nat" where
  "ctSize t = extent_product (dims t)"

definition isAlloced :: "'a Tensor \<Rightarrow> bool" where
  "isAlloced t = (data t \<noteq> Null)"

text \<open>A thrown exception carries the state in which it leaves the object and the heap.\<close>

type_synonym 'a outcome = "(error \<times> 'a Tensor \<times> 'a heap) + ('a Tensor \<times> 'a heap)"

text \<open>
  The array behind \<open>ptr()\<close>, when \<open>ptr()\<close> points to one, and the write of a whole
  array through \<open>ptr()\<close>.
\<close>

definition buffer :: "'a Tensor \<Rightarrow> 'a heap \<Rightarrow> 'a list option" where
  "buffer t h =
     (case data t of
        Static \<Rightarrow> Some (staticData t)
      | Heap a \<Rightarrow>
          (if a < length h then (case h ! a of Live xs \<Rightarrow> Some xs | Released \<Rightarrow> None)
           else None)
      | _ \<Rightarrow> None)"

definition set_buffer :: "'a Tensor \<Rightarrow> 'a heap \<Rightarrow> 'a list \<Rightarrow> 'a Tensor \<times> 'a heap" where
  "set_buffer t h xs =
     (case data t of
        Static \<Rightarrow> (t\<lparr>staticData := xs\<rparr>, h)
      | Heap a \<Rightarrow> (t, h[a := Live xs])
      | _ \<Rightarrow> (t, h))"

text \<open>The \<open>size()\<close> elements of a container: what \<open>operator[]\<close> reads for \<open>i < size()\<close>.\<close>

definition elements :: "'a Tensor \<Rightarrow> 'a heap \<Rightarrow> 'a list option" where
  "elements t h = map_option (take (tsize t)) (buffer t h)"

text \<open>
  \<open>t[i] = v\<close> for an index inside the buffer (\<open>operator[]\<close> returns \<open>ptr()[i]\<close>); used to
  state that two containers do not share storage.
\<close>

definition poke :: "'a Tensor \<Rightarrow> nat \<Rightarrow> 'a \<Rightarrow> 'a heap \<Rightarrow> 'a Tensor \<times> 'a heap" where
  "poke t i v h =
     (case buffer t h of
        Some xs \<Rightarrow> (if i < length xs then set_buffer t h (xs[i := v]) else (t, h))
      | None \<Rightarrow> (t, h))"

text \<open>\<open>std::fill_n(data, n, v)\<close> and \<open>std::memcpy(ptr(), other.ptr(), sizeof(T) * n)\<close>.\<close>

definition fill_n :: "'a Tensor \<Rightarrow> 'a heap \<Rightarrow> nat \<Rightarrow> 'a \<Rightarrow> 'a outcome" where
  "fill_n t h n v =
     (if n = 0 then Inr (t, h)
      else (case buffer t h of
              None \<Rightarrow> Inl (NullPointer, t, h)
            | Some xs \<Rightarrow>
                (case for_each n (\<lambda>i x. v) xs of
                   Inl e \<Rightarrow> Inl (e, t, h)
                 | Inr xs' \<Rightarrow> Inr (set_buffer t h xs'))))"

definition memcpy_from :: "'a Tensor \<Rightarrow> 'a Tensor \<Rightarrow> 'a heap \<Rightarrow> nat \<Rightarrow> 'a outcome" where
  "memcpy_from this other h n =
     (if n = 0 then Inr (this, h)
      else (case (buffer this h, buffer other h) of
              (Some d, Some s) \<Rightarrow>
                (case zip_loop n (\<lambda>di si. si) d s of
                   Inl e \<Rightarrow> Inl (e, this, h)
                 | Inr d' \<Rightarrow> Inr (set_buffer this h d'))
            | _ \<Rightarrow> Inl (NullPointer, this, h)))"

text \<open>
  \<open>void alloc(const std::array<uint32_t, _nDims>& shape)\<close>, with \<open>sh\<close> for the
  argument \<open>shape\<close> and \<open>sizeofT\<close> for \<open>sizeof(T)\<close>. It returns at once when
  \<open>isAlloced()\<close>. Otherwise an inline container takes its compile-time shape and its
  inline array; a dynamic one records the shape and the size \<open>s\<close>, then asks for a block
  of \<open>allocedBytes\<close> bytes and throws \<open>std::bad_alloc\<close> when it gets none. Either way it
  ends with \<open>std::fill_n(data, _size, T(0.0))\<close>, which writes past the end of the block
  when the block holds fewer than \<open>_size\<close> cells.
\<close>

definition alloc ::
  "'a malloc \<Rightarrow> nat \<Rightarrow> nat list \<Rightarrow> 'a::zero Tensor \<Rightarrow> 'a heap \<Rightarrow> 'a outcome" where
  "alloc env sizeofT sh t h =
     (if isAlloced t then Inr (t, h)
      else
        (let s = extent_product sh in
         if 0 < ctSize t then
           (let t1 = t\<lparr>tshape := dims t, tsize := ctSize t, data := Static\<rparr>
            in fill_n t1 h (tsize t1) 0)
         else
           (let t1 = t\<lparr>tshape := sh, tsize := s\<rparr>
            in (case aligned_alloc env sizeofT (allocedBytes sizeofT s) h of
                  (Null, h') \<Rightarrow> Inl (BadAlloc, t1, h')
                | (p, h') \<Rightarrow>
                    (let t2 = t1\<lparr>heapData := p, data := p\<rparr>
                     in fill_n t2 h' (tsize t2) 0)))))"

text \<open>
  \<open>free()\<close>: \<open>std::free(dataHolder.heapData)\<close> for a dynamic container, nothing for an
  inline one; then \<open>data = nullptr; _size = 0; _shape = {}\<close>. It does not write
  \<open>dataHolder.heapData\<close>.
\<close>

definition cleared :: "'a Tensor \<Rightarrow> 'a Tensor" where
  "cleared t = t\<lparr>data := Null, tsize := 0, tshape := replicate (length (dims t)) 0\<rparr>"

definition free :: "'a Tensor \<Rightarrow> 'a heap \<Rightarrow> 'a outcome" where
  "free t h =
     (if 0 < ctSize t then Inr (cleared t, h)
      else (case std_free (heapData t) h of
              None \<Rightarrow> Inl (InvalidFree, t, h)
            | Some h' \<Rightarrow> Inr (cleared t, h')))"

text \<open>
  The object before any constructor body runs: \<open>data = nullptr\<close> and \<open>_size = 0\<close> by
  their member initialisers; \<open>dataHolder\<close> and \<open>_shape\<close> have none, so the inline array
  holds whatever \<open>c\<close> the memory held, the pointer is indeterminate, and the shape is
  whatever \<open>g\<close> the memory held. The inline array has \<open>_ctSize > 0 ? _ctSize : 1\<close>
  elements.
\<close>

definition raw_Tensor :: "nat list \<Rightarrow> (nat \<Rightarrow> 'a) \<Rightarrow> (nat \<Rightarrow> nat) \<Rightarrow> 'a Tensor" where
  "raw_Tensor ds c g =
     \<lparr>dims = ds,
      staticData = map c [0..<(if 0 < extent_product ds then extent_product ds else 1)],
      heapData = Indeterminate, data = Null, tsize = 0,
      tshape = map g [0..<length ds]\<rparr>"

text \<open>
  \<open>Tensor()\<close>: \<open>if constexpr (_ctSize > 0) alloc({})\<close>; and
  \<open>Tensor(const std::array<uint32_t, _nDims> sz) { alloc(sz); }\<close>.
\<close>

definition Tensor_default ::
  "'a malloc \<Rightarrow> nat \<Rightarrow> nat list \<Rightarrow> (nat \<Rightarrow> 'a) \<Rightarrow> (nat \<Rightarrow> nat) \<Rightarrow> 'a heap \<Rightarrow>
   'a::zero outcome" where
  "Tensor_default env sizeofT ds c g h =
     (let t = raw_Tensor ds c g
      in if 0 < ctSize t then alloc env sizeofT (replicate (length ds) 0) t h else Inr (t, h))"

definition Tensor_sized ::
  "'a malloc \<Rightarrow> nat \<Rightarrow> nat list \<Rightarrow> (nat \<Rightarrow> 'a) \<Rightarrow> (nat \<Rightarrow> nat) \<Rightarrow> nat list \<Rightarrow> 'a heap \<Rightarrow>
   'a::zero outcome" where
  "Tensor_sized env sizeofT ds c g sz h = alloc env sizeofT sz (raw_Tensor ds c g) h"

text \<open>
  Copy assignment \<open>operator=(const Tensor<T, dims...>& other)\<close>, between containers of
  one static type: a shape check when \<open>this\<close> is allocated, an allocation to the shape
  of \<open>other\<close> when it is not; then \<open>memcpy\<close> of \<open>other.size()\<close> elements.
\<close>

definition Tensor_assign ::
  "'a malloc \<Rightarrow> nat \<Rightarrow> 'a::zero Tensor \<Rightarrow> 'a Tensor \<Rightarrow> 'a heap \<Rightarrow> 'a outcome" where
  "Tensor_assign env sizeofT this other h =
     (if isAlloced this then
        (case checkShape (tshape this) (tshape other) of
           Inl e \<Rightarrow> Inl (e, this, h)
         | Inr _ \<Rightarrow> memcpy_from this other h (tsize other))
      else
        (case alloc env sizeofT (tshape other) this h of
           Inl x \<Rightarrow> Inl x
         | Inr (this', h') \<Rightarrow> memcpy_from this' other h' (tsize other)))"

text \<open>
  The member template \<open>operator=(const Tensor<T, ddims...>& other)\<close>, which takes a
  container of any other static type: always the shape check, then the \<open>memcpy\<close>.
\<close>

definition Tensor_assign_other :: "'a Tensor \<Rightarrow> 'a Tensor \<Rightarrow> 'a heap \<Rightarrow> 'a outcome" where
  "Tensor_assign_other this other h =
     (case checkShape (tshape this) (tshape other) of
        Inl e \<Rightarrow> Inl (e, this, h)
      | Inr _ \<Rightarrow> memcpy_from this other h (tsize other))"

text \<open>
  Copy constructor: \<open>Tensor(const Tensor& other) : Tensor() { alloc(other.shape());
  (*this) = other; }\<close>.
\<close>

definition Tensor_copy ::
  "'a malloc \<Rightarrow> nat \<Rightarrow> 'a::zero Tensor \<Rightarrow> (nat \<Rightarrow> 'a) \<Rightarrow> (nat \<Rightarrow> nat) \<Rightarrow> 'a heap \<Rightarrow>
   'a outcome" where
  "Tensor_copy env sizeofT other c g h =
     (case Tensor_default env sizeofT (dims other) c g h of
        Inl x \<Rightarrow> Inl x
      | Inr (t0, h0) \<Rightarrow>
          (case alloc env sizeofT (tshape other) t0 h0 of
             Inl x \<Rightarrow> Inl x
           | Inr (t1, h1) \<Rightarrow> Tensor_assign env sizeofT t1 other h1))"

text \<open>
  Move constructor. The new object takes \<open>data\<close>, \<open>_size\<close>, \<open>_shape\<close> of \<open>other\<close>; an inline
  container then points \<open>data\<close> at its own array and copies the \<open>_ctSize\<close> elements of
  \<open>other\<close>'s array, a dynamic one takes \<open>other\<close>'s \<open>heapData\<close> and nulls it there. At the
  end \<open>other.data = nullptr; other._size = 0; other._shape = {}\<close>. Reading a pointer that
  was never written is undefined behaviour. The result is the new object and \<open>other\<close>.
\<close>

definition Tensor_move ::
  "'a Tensor \<Rightarrow> (nat \<Rightarrow> 'a) \<Rightarrow> error + ('a Tensor \<times> 'a Tensor)" where
  "Tensor_move other c =
     (let this = (raw_Tensor (dims other) c (\<lambda>i. 0))
                   \<lparr>data := data other, tsize := tsize other, tshape := tshape other\<rparr>
      in if 0 < ctSize this then
           Inr (this\<lparr>data := Static,
                     staticData := take (ctSize this) (staticData other)
                                   @ drop (ctSize this) (staticData this)\<rparr>,
                cleared other)
         else if heapData other = Indeterminate then Inl IndeterminateRead
         else Inr (this\<lparr>heapData := heapData other\<rparr>,
                   cleared (other\<lparr>heapData := Null\<rparr>)))"

text \<open>
  Move assignment. \<open>same\<close> is the test \<open>this == &other\<close>. Otherwise \<open>free()\<close>, then the
  members of \<open>other\<close> are taken as in the move constructor, and \<open>other\<close> is cleared. The
  result is \<open>this\<close>, \<open>other\<close> and the heap.
\<close>

definition Tensor_move_assign ::
  "bool \<Rightarrow> 'a Tensor \<Rightarrow> 'a Tensor \<Rightarrow> 'a heap \<Rightarrow> error + ('a Tensor \<times> 'a Tensor \<times> 'a heap)" where
  "Tensor_move_assign same this other h =
     (if same then Inr (this, other, h)
      else
        (case free this h of
           Inl (e, _) \<Rightarrow> Inl e
         | Inr (this1, h1) \<Rightarrow>
             (let this2 = this1\<lparr>tsize := tsize other, tshape := tshape other\<rparr>
              in if 0 < ctSize this then
                   Inr (this2\<lparr>data := Static,
                              staticData := take (ctSize this) (staticData other)
                                            @ drop (ctSize this) (staticData this2)\<rparr>,
                        cleared other, h1)
                 else if heapData other = Indeterminate then Inl IndeterminateRead
                 else Inr (this2\<lparr>heapData := heapData other, data := heapData other\<rparr>,
                           cleared (other\<lparr>heapData := Null\<rparr>), h1))))"

text \<open>
  An allocated container in a heap: size and shape agree, an inline container points at
  its own array of \<open>_ctSize\<close> elements and has its compile-time shape, a dynamic one owns
  a live block that holds at least \<open>size()\<close> cells.
\<close>

definition valid :: "'a heap \<Rightarrow> 'a Tensor \<Rightarrow> bool" where
  "valid h t =
     (tsize t = extent_product (tshape t) \<and> length (tshape t) = length (dims t) \<and>
      (if 0 < ctSize t
       then data t = Static \<and> tshape t = dims t \<and> length (staticData t) = ctSize t
       else (case data t of
               Heap a \<Rightarrow>
                 heapData t = Heap a \<and> a < length h \<and>
                 (case h ! a of Live xs \<Rightarrow> tsize t \<le> length xs | Released \<Rightarrow> False)
             | _ \<Rightarrow> False)))"

text \<open>Two containers that do not point \<open>data\<close> at the same heap block.\<close>

definition separate :: "'a Tensor \<Rightarrow> 'a Tensor \<Rightarrow> bool" where
  "separate t u = (case data t of Heap a \<Rightarrow> data u \<noteq> Heap a | _ \<Rightarrow> True)"

section \<open>Storage of the MatrixVector family\<close>

text \<open>
  \<open>ContiguousStorage<T, size>\<close> with \<open>size > 0\<close>: the inline array \<open>T _data[size] = {}\<close>.
  Its \<open>alloc\<close> returns \<open>true\<close> and does nothing else.
\<close>

record 'a InlineStorage =
  inline_data :: "'a list"

definition InlineStorage_default :: "nat \<Rightarrow> 'a::zero InlineStorage" where
  "InlineStorage_default n = \<lparr>inline_data = replicate n 0\<rparr>"

definition InlineStorage_alloc :: "nat \<Rightarrow> 'a InlineStorage \<Rightarrow> bool \<times> 'a InlineStorage" where
  "InlineStorage_alloc len s = (True, s)"

text \<open>
  \<open>ContiguousStorage<T, 0>\<close>: \<open>_len\<close>, \<open>_alloced_size\<close> and the owning pointer
  \<open>std::unique_ptr<T, void (*)(void*)> _data\<close> with deleter \<open>std::free\<close>.
\<close>

record HeapStorage =
  len :: nat
  alloced_size :: nat
  storage_data :: ptr

definition HeapStorage_default :: HeapStorage where
  "HeapStorage_default = \<lparr>len = 0, alloced_size = 0, storage_data = Null\<rparr>"

text \<open>
  \<open>_data.reset(p)\<close>: the pointer becomes \<open>p\<close>, and the old pointer, unless null, goes to
  the deleter.
\<close>

definition unique_ptr_reset :: "ptr \<Rightarrow> HeapStorage \<Rightarrow> 'a heap \<Rightarrow> (HeapStorage \<times> 'a heap) option" where
  "unique_ptr_reset p s h =
     (case std_free (storage_data s) h of
        None \<Rightarrow> None
      | Some h' \<Rightarrow> Some (s\<lparr>storage_data := p\<rparr>, h'))"

text \<open>
  \<open>bool alloc(const size_t len)\<close>: writes \<open>_len\<close> and \<open>_alloced_size\<close>, asks for a block of
  \<open>_alloced_size\<close> bytes, returns \<open>false\<close> when it gets none, else resets the pointer to
  the block and returns \<open>true\<close>. \<open>sizeofT\<close> is \<open>sizeof(T)\<close>, \<open>n\<close> the argument \<open>len\<close>. The
  only failure of the model is the deleter's, on an owning pointer that is not a live
  block.
\<close>

definition HeapStorage_alloc ::
  "'a malloc \<Rightarrow> nat \<Rightarrow> nat \<Rightarrow> HeapStorage \<Rightarrow> 'a heap \<Rightarrow>
   error + (bool \<times> HeapStorage \<times> 'a heap)" where
  "HeapStorage_alloc env sizeofT n s h =
     (let s1 = s\<lparr>len := n, alloced_size := storage_bytes sizeofT n\<rparr>
      in (case aligned_alloc env sizeofT (alloced_size s1) h of
            (Null, h') \<Rightarrow> Inr (False, s1, h')
          | (p, h') \<Rightarrow>
              (case unique_ptr_reset p s1 h' of
                 None \<Rightarrow> Inl InvalidFree
               | Some (s2, h'') \<Rightarrow> Inr (True, s2, h''))))"

definition HeapStorage_isAlloc :: "HeapStorage \<Rightarrow> bool" where
  "HeapStorage_isAlloc s = (len s \<noteq> 0)"

text \<open>
  \<open>void Vector::alloc(const size_t len) { ContiguousStorage::alloc(len); }\<close>: the
  result of the storage's \<open>alloc\<close> is dropped, and nothing in it throws.
\<close>

definition Vector_alloc ::
  "'a malloc \<Rightarrow> nat \<Rightarrow> nat \<Rightarrow> HeapStorage \<Rightarrow> 'a heap \<Rightarrow> error + (HeapStorage \<times> 'a heap)" where
  "Vector_alloc env sizeofT n s h =
     (case HeapStorage_alloc env sizeofT n s h of
        Inl e \<Rightarrow> Inl e
      | Inr (ok, s', h') \<Rightarrow> Inr (s', h'))"

text \<open>The elements behind \<open>ptr()\<close> of a dynamic storage.\<close>

definition storage_elements :: "HeapStorage \<Rightarrow> 'a heap \<Rightarrow> 'a list option" where
  "storage_elements s h =
     (case storage_data s of
        Heap a \<Rightarrow>
          (if a < length h then (case h ! a of Live xs \<Rightarrow> Some (take (len s) xs) | Released \<Rightarrow> None)
           else None)
      | _ \<Rightarrow> None)"

section \<open>Reference semantics of a fused statement\<close>

text \<open>
  What the specification compares a fused kernel with: the value \<open>operand1 SRC operand2\<close>
  of a source tag, the value \<open>dest OP= tmp\<close> of a destination tag, and the two passes
  "materialise \<open>tmp\<close> elementwise, then combine it into \<open>dest\<close> elementwise".
  \<open>SubLeft\<close> and \<open>DivLeft\<close> are the source tags with the operands reversed; \<open>Assign\<close>
  is not a source tag, and \<open>SubLeft\<close>, \<open>DivLeft\<close> are not destination tags.
\<close>

definition source_value :: "OPType \<Rightarrow> 'a::field \<Rightarrow> 'a \<Rightarrow> 'a" where
  "source_value op x y =
     (case op of Add \<Rightarrow> x + y | Sub \<Rightarrow> x - y | SubLeft \<Rightarrow> y - x
               | Mul \<Rightarrow> x * y | Div \<Rightarrow> x / y | DivLeft \<Rightarrow> y / x | Assign \<Rightarrow> x)"

definition combine_value :: "OPType \<Rightarrow> 'a::field \<Rightarrow> 'a \<Rightarrow> 'a" where
  "combine_value op d t =
     (case op of Assign \<Rightarrow> t | Add \<Rightarrow> d + t | Sub \<Rightarrow> d - t
               | Mul \<Rightarrow> d * t | Div \<Rightarrow> d / t | SubLeft \<Rightarrow> d | DivLeft \<Rightarrow> d)"

definition two_pass_scalar :: "OPType \<Rightarrow> OPType \<Rightarrow> 'a::field list \<Rightarrow> 'a list \<Rightarrow> 'a \<Rightarrow> 'a list" where
  "two_pass_scalar source destination dest v s =
     (let tmp = map (\<lambda>x. source_value source x s) v
      in map (\<lambda>(d, t). combine_value destination d t) (zip dest tmp))"

definition two_pass :: "OPType \<Rightarrow> OPType \<Rightarrow> 'a::field list \<Rightarrow> 'a list \<Rightarrow> 'a list \<Rightarrow> 'a list" where
  "two_pass source destination dest l r =
     (let tmp = map (\<lambda>(x, y). source_value source x y) (zip l r)
      in map (\<lambda>(d, t). combine_value destination d t) (zip dest tmp))"

section \<open>Closed forms of the loops\<close>

lemma loop_pointwise:
  "n \<le> length d \<Longrightarrow>
   loop n (\<lambda>i d'. d'[i := body i (d' ! i)]) d = map (\<lambda>i. body i (d ! i)) [0..<n] @ drop n d"
proof (induction n)
  case 0
  show ?case by simp
next
  case (Suc n)
  then have n: "n < length d" by simp
  have split: "drop n d = d ! n # drop (Suc n) d"
    using n by (simp add: Cons_nth_drop_Suc)
  have len: "length (map (\<lambda>i. body i (d ! i)) [0..<n]) = n" by simp
  show ?case
    using Suc.IH n
    by (simp add: split nth_append list_update_append del: upt_Suc)
       (simp add: split)
qed

lemma for_each_closed:
  "n \<le> length d \<Longrightarrow>
   for_each n body d = Inr (map (\<lambda>i. body i (d ! i)) [0..<n] @ drop n d)"
  by (simp add: for_each_def loop_pointwise)

lemma for_each_whole:
  "for_each (length d) body d = Inr (map (\<lambda>i. body i (d ! i)) [0..<length d])"
  by (simp add: for_each_closed)

lemma zip_loop_closed:
  "n \<le> length d \<Longrightarrow> n \<le> length x \<Longrightarrow>
   zip_loop n f d x = Inr (map (\<lambda>i. f (d ! i) (x ! i)) [0..<n] @ drop n d)"
  by (simp add: zip_loop_def for_each_closed)

lemma map_nth_take: "n \<le> length x \<Longrightarrow> map (\<lambda>i. x ! i) [0..<n] = take n x"
  by (simp add: list_eq_iff_nth_eq)

lemma copy_loop:
  "n \<le> length d \<Longrightarrow> n \<le> length x \<Longrightarrow>
   zip_loop n (\<lambda>di si. si) d x = Inr (take n x @ drop n d)"
  by (simp add: zip_loop_closed map_nth_take)

lemma fill_loop:
  "n \<le> length xs \<Longrightarrow> for_each n (\<lambda>i x. v) xs = Inr (replicate n v @ drop n xs)"
  apply (subst for_each_closed)
   apply assumption
  apply (simp only: map_replicate_trivial)
  done

lemmas kernel_defs =
  for_each_def zip_loop_def zip_loop2_def cblas_axpy_def add_T_def add_S_def sub_T_def
  sub_S_def mul_T_def mul_S_def div_T_def div_S_def copyTo_def setConstant_def setOne_def
  andThen_def fma_def

lemma replicate_3: "replicate 3 x = [x, x, x]"
  by (simp add: numeral_3_eq_3)

section \<open>Facts about \<open>checkShape\<close>, \<open>alloc\<close> and \<open>free\<close>\<close>

lemma checkShape_eq:
  "checkShape a1 a2 =
     (if length a1 \<noteq> length a2 then Inl (DimensionError (length a1) (length a2))
      else if a1 = a2 then Inr () else Inl (SizeMismatch a1 a2))"
proof (cases "length a1 = length a2")
  case False
  then show ?thesis by (simp add: checkShape_def)
next
  case True
  have "list_ex (\<lambda>i. a1 ! i \<noteq> a2 ! i) [0..<length a1] \<longleftrightarrow> (\<exists>i<length a1. a1 ! i \<noteq> a2 ! i)"
    by (auto simp: list_ex_iff)
  also have "\<dots> \<longleftrightarrow> a1 \<noteq> a2"
    using True by (simp add: list_eq_iff_nth_eq)
  finally show ?thesis
    using True by (simp add: checkShape_def)
qed

lemma extent_product_simps:
  "extent_product [] = 1"
  "extent_product [n] = n mod 2 ^ 64"
  "extent_product [m, n] = (m mod 2 ^ 64 * n) mod 2 ^ 64"
  by (simp_all add: extent_product_def)

lemma alloc_allocated: "isAlloced t \<Longrightarrow> alloc env sizeofT sh t h = Inr (t, h)"
  by (simp add: alloc_def)

lemma bytes_no_wrap:
  fixes x M :: nat
  assumes "x + 15 < M"
  shows "((x + 16 - 1) mod M div 16 * 16) mod M = (x + 15) div 16 * 16"
    and "(16 * ((x + 16 - 1) mod M div 16)) mod M = (x + 15) div 16 * 16"
    and "x \<le> (x + 15) div 16 * 16"
proof -
  have le: "(x + 15) div 16 * 16 \<le> x + 15"
    by simp
  have m: "(x + 16 - 1) mod M = x + 15"
    using assms by simp
  show "((x + 16 - 1) mod M div 16 * 16) mod M = (x + 15) div 16 * 16"
    unfolding m using le assms by simp
  show "(16 * ((x + 16 - 1) mod M div 16)) mod M = (x + 15) div 16 * 16"
    unfolding m using le assms by (simp add: mult.commute)
  show "x \<le> (x + 15) div 16 * 16"
    by presburger
qed

lemma allocedBytes_no_wrap:
  assumes "sizeofT * n + 15 < 2 ^ 64"
  shows "allocedBytes sizeofT n = (sizeofT * n + 15) div 16 * 16"
  unfolding allocedBytes_def alignment_def using assms by (rule bytes_no_wrap(1))

lemma storage_bytes_no_wrap:
  assumes "n * sizeofT + 15 < 2 ^ 64"
  shows "storage_bytes sizeofT n = (n * sizeofT + 15) div 16 * 16"
  unfolding storage_bytes_def alignment_def using assms by (rule bytes_no_wrap(2))

lemma block_holds_size:
  assumes "0 < sizeofT" and "sizeofT * n + 15 < 2 ^ 64"
  shows "n \<le> allocedBytes sizeofT n div sizeofT"
proof -
  have "sizeofT * n \<le> allocedBytes sizeofT n"
    unfolding allocedBytes_no_wrap [OF assms(2)] by (rule bytes_no_wrap(3) [OF assms(2)])
  then have "n * sizeofT \<le> allocedBytes sizeofT n"
    by (simp add: mult.commute)
  then show ?thesis
    using assms(1) by (simp add: less_eq_div_iff_mult_less_eq)
qed

lemma alloc_unallocated_dynamic:
  assumes "\<not> isAlloced t" "ctSize t = 0" "extent_product sh \<le> allocedBytes sizeofT (extent_product sh) div sizeofT"
  shows "alloc (Fresh c) sizeofT sh t h =
           Inr (t\<lparr>tshape := sh, tsize := extent_product sh,
                  heapData := Heap (length h), data := Heap (length h)\<rparr>,
                h @ [Live (replicate (extent_product sh) 0 @
                           map c [extent_product sh..<
                                  allocedBytes sizeofT (extent_product sh) div sizeofT])])"
  using assms
  by (auto simp: alloc_def aligned_alloc_def fill_n_def buffer_def set_buffer_def Let_def
      fill_loop nth_append drop_map)

lemma alloc_block_too_small:
  assumes "\<not> isAlloced t" "ctSize t = 0"
    and "allocedBytes sizeofT (extent_product sh) div sizeofT < extent_product sh"
  shows "alloc (Fresh c) sizeofT sh t h =
           Inl (OutOfBounds,
                t\<lparr>tshape := sh, tsize := extent_product sh,
                  heapData := Heap (length h), data := Heap (length h)\<rparr>,
                h @ [Live (map c [0..<allocedBytes sizeofT (extent_product sh) div sizeofT])])"
  using assms
  by (auto simp: alloc_def aligned_alloc_def fill_n_def buffer_def for_each_def Let_def
      nth_append)

lemma alloc_unallocated_inline:
  assumes "\<not> isAlloced t" "0 < ctSize t" "ctSize t \<le> length (staticData t)"
  shows "alloc env sizeofT sh t h =
           Inr (t\<lparr>tshape := dims t, tsize := ctSize t, data := Static,
                  staticData := replicate (ctSize t) 0 @ drop (ctSize t) (staticData t)\<rparr>, h)"
  using assms
  by (auto simp: alloc_def fill_n_def buffer_def set_buffer_def Let_def fill_loop)

lemma alloc_out_of_memory:
  assumes "\<not> isAlloced t" "ctSize t = 0"
  shows "alloc OutOfMemory sizeofT sh t h =
           Inl (BadAlloc, t\<lparr>tshape := sh, tsize := extent_product sh\<rparr>, h)"
  using assms by (simp add: alloc_def aligned_alloc_def Let_def)

lemma free_live:
  assumes "ctSize t = 0" "heapData t = Heap a" "a < length h" "h ! a = Live xs"
  shows "free t h = Inr (cleared t, h[a := Released])"
  using assms by (simp add: free_def std_free_def)

lemma free_released:
  assumes "ctSize t = 0" "heapData t = Heap a" "a < length h" "h ! a = Released"
  shows "free t h = Inl (InvalidFree, t, h)"
  using assms by (simp add: free_def std_free_def)

lemma free_inline: "0 < ctSize t \<Longrightarrow> free t h = Inr (cleared t, h)"
  by (simp add: free_def)

lemma replicate_2: "replicate 2 x = [x, x]"
  by (simp add: numeral_2_eq_2)

lemma raw_Tensor_facts:
  "\<not> isAlloced (raw_Tensor ds c g)"
  "ctSize (raw_Tensor ds c g) = extent_product ds"
  "dims (raw_Tensor ds c g) = ds"
  "0 < extent_product ds \<Longrightarrow> length (staticData (raw_Tensor ds c g)) = extent_product ds"
  by (simp_all add: raw_Tensor_def isAlloced_def ctSize_def)

lemma Tensor_default_inline:
  assumes "0 < extent_product ds"
  shows "Tensor_default env sizeofT ds c g h =
           Inr ((raw_Tensor ds c g)\<lparr>tshape := ds, tsize := extent_product ds, data := Static,
                  staticData := replicate (extent_product ds) 0\<rparr>, h)"
proof -
  let ?t = "raw_Tensor ds c g"
  have "alloc env sizeofT (replicate (length ds) 0) ?t h =
          Inr (?t\<lparr>tshape := dims ?t, tsize := ctSize ?t, data := Static,
                  staticData := replicate (ctSize ?t) 0 @ drop (ctSize ?t) (staticData ?t)\<rparr>, h)"
    by (rule alloc_unallocated_inline) (simp_all add: raw_Tensor_facts assms)
  then show ?thesis
    using assms by (simp add: Tensor_default_def Let_def raw_Tensor_facts)
qed

lemma elements_dynamic_fresh:
  "elements (t\<lparr>tshape := sh, tsize := n, heapData := Heap (length h), data := Heap (length h)\<rparr>)
            (h @ [Live (replicate n v @ ys)]) = Some (replicate n v)"
  by (simp add: elements_def buffer_def)

lemma upt_2: "[0..<2] = [0, 1]"
  by (simp add: numeral_2_eq_2)

lemma upt_3: "[0..<3] = [0, 1, 2]"
  by (simp add: numeral_3_eq_3)

lemma HeapStorage_alloc_replaces:
  assumes "storage_data st = Heap a" "a < length h" "h ! a = Live xs"
  shows "HeapStorage_alloc (Fresh c) sizeofT m st h =
           Inr (True,
                st\<lparr>len := m, alloced_size := storage_bytes sizeofT m,
                   storage_data := Heap (length h)\<rparr>,
                (h @ [Live (map c [0..<storage_bytes sizeofT m div sizeofT])])[a := Released])"
  using assms
  by (simp add: HeapStorage_alloc_def aligned_alloc_def unique_ptr_reset_def std_free_def
      Let_def nth_append)

lemma HeapStorage_alloc_first:
  assumes "storage_data st = Null"
  shows "HeapStorage_alloc (Fresh c) sizeofT m st h =
           Inr (True,
                st\<lparr>len := m, alloced_size := storage_bytes sizeofT m,
                   storage_data := Heap (length h)\<rparr>,
                h @ [Live (map c [0..<storage_bytes sizeofT m div sizeofT])])"
  using assms
  by (simp add: HeapStorage_alloc_def aligned_alloc_def unique_ptr_reset_def std_free_def Let_def)

lemma valid_buffer:
  assumes "valid h t"
  shows "\<exists>xs. buffer t h = Some xs \<and> tsize t \<le> length xs"
proof (cases "0 < ctSize t")
  case True
  with assms have "data t = Static" "tshape t = dims t" "length (staticData t) = ctSize t"
    "tsize t = extent_product (tshape t)"
    by (simp_all add: valid_def)
  then show ?thesis
    by (simp add: buffer_def ctSize_def)
next
  case False
  with assms show ?thesis
    by (auto simp: valid_def buffer_def split: ptr.splits block.splits)
qed

lemma valid_isAlloced: "valid h t \<Longrightarrow> isAlloced t"
  by (auto simp: valid_def isAlloced_def split: if_splits ptr.splits)

lemma valid_size: "valid h t \<Longrightarrow> tsize t = extent_product (tshape t)"
  by (simp add: valid_def)

lemma set_buffer_fields [simp]:
  "data (fst (set_buffer t h xs)) = data t"
  "tsize (fst (set_buffer t h xs)) = tsize t"
  "tshape (fst (set_buffer t h xs)) = tshape t"
  "dims (fst (set_buffer t h xs)) = dims t"
  "heapData (fst (set_buffer t h xs)) = heapData t"
  by (simp_all add: set_buffer_def split: ptr.splits)

lemma buffer_set_buffer_same:
  assumes "buffer t h = Some ys"
  shows "buffer (fst (set_buffer t h xs)) (snd (set_buffer t h xs)) = Some xs"
  using assms
  by (auto simp: buffer_def set_buffer_def split: ptr.splits if_splits block.splits)

lemma buffer_set_buffer_other:
  assumes "separate t u"
  shows "buffer u (snd (set_buffer t h xs)) = buffer u h"
  using assms
  by (auto simp: buffer_def set_buffer_def separate_def split: ptr.splits)

lemma set_buffer_id:
  assumes "buffer t h = Some xs"
  shows "set_buffer t h xs = (t, h)"
  using assms
  by (auto simp: buffer_def set_buffer_def split: ptr.splits if_splits block.splits)
     (metis list_update_id)

lemma buffer_poke_other:
  assumes "separate t u"
  shows "buffer u (snd (poke t i v h)) = buffer u h"
  using assms by (simp add: poke_def buffer_set_buffer_other split: option.splits)

lemma memcpy_from_ok:
  assumes "buffer this h = Some d" "buffer other h = Some s" "n \<le> length d" "n \<le> length s"
  shows "memcpy_from this other h n = Inr (set_buffer this h (take n s @ drop n d))"
proof (cases "n = 0")
  case True
  then show ?thesis
    using assms by (simp add: memcpy_from_def set_buffer_id)
next
  case False
  then show ?thesis
    using assms by (simp add: memcpy_from_def copy_loop)
qed

lemma separate_sym: "separate t u \<Longrightarrow> separate u t"
  by (auto simp: separate_def split: ptr.splits)

lemma separate_data: "data t' = data t \<Longrightarrow> data u' = data u \<Longrightarrow> separate t' u' = separate t u"
  by (simp add: separate_def split: ptr.splits)

lemma memcpy_copies:
  assumes v: "valid h dest" "valid h src"
    and sh: "tshape dest = tshape src"
    and sep: "separate dest src"
  shows "\<exists>dest' h'. memcpy_from dest src h (tsize src) = Inr (dest', h') \<and>
           elements dest' h' = elements src h \<and> elements src h' = elements src h \<and>
           tshape dest' = tshape dest \<and> tsize dest' = tsize dest \<and> data dest' = data dest \<and>
           dims dest' = dims dest \<and> heapData dest' = heapData dest \<and>
           (\<forall>i v. elements dest' (snd (poke src i v h')) = elements dest' h')"
proof -
  obtain d where d: "buffer dest h = Some d" "tsize dest \<le> length d"
    using valid_buffer [OF v(1)] by blast
  obtain s where s: "buffer src h = Some s" "tsize src \<le> length s"
    using valid_buffer [OF v(2)] by blast
  have n: "tsize dest = tsize src"
    using v sh by (simp add: valid_size)
  let ?new = "take (tsize src) s @ drop (tsize src) d"
  let ?r = "set_buffer dest h ?new"
  have m: "memcpy_from dest src h (tsize src) = Inr ?r"
    using memcpy_from_ok [OF d(1) s(1), of "tsize src"] d(2) s(2) n by simp
  have b1: "buffer (fst ?r) (snd ?r) = Some ?new"
    using d(1) by (rule buffer_set_buffer_same)
  have b2: "buffer src (snd ?r) = buffer src h"
    using sep by (rule buffer_set_buffer_other)
  have sep': "separate src (fst ?r)"
    using separate_sym [OF sep] by (simp add: separate_def split: ptr.splits)
  have b3: "buffer (fst ?r) (snd (poke src i v (snd ?r))) = buffer (fst ?r) (snd ?r)" for i v
    using sep' by (rule buffer_poke_other)
  show ?thesis
    apply (rule exI [of _ "fst ?r"], rule exI [of _ "snd ?r"])
    using m b1 b2 b3 s n by (simp add: elements_def)
qed

lemma valid_append: "valid h t \<Longrightarrow> valid (h @ ys) t"
  by (auto simp: valid_def nth_append split: if_splits ptr.splits)

lemma buffer_append: "valid h t \<Longrightarrow> buffer t (h @ ys) = buffer t h"
  by (auto simp: valid_def buffer_def nth_append split: if_splits ptr.splits)

lemma elements_append: "valid h t \<Longrightarrow> elements t (h @ ys) = elements t h"
  by (simp add: elements_def buffer_append)

lemma Tensor_assign_allocated:
  "isAlloced this \<Longrightarrow>
   Tensor_assign env sizeofT this other h = Tensor_assign_other this other h"
  by (simp add: Tensor_assign_def Tensor_assign_other_def)

lemma Tensor_assign_other_match:
  "tshape this = tshape other \<Longrightarrow>
   Tensor_assign_other this other h = memcpy_from this other h (tsize other)"
  by (simp add: Tensor_assign_other_def checkShape_eq)

lemma Tensor_assign_other_mismatch:
  "tshape this \<noteq> tshape other \<Longrightarrow>
   Tensor_assign_other this other h =
     Inl (if length (tshape this) \<noteq> length (tshape other)
          then DimensionError (length (tshape this)) (length (tshape other))
          else SizeMismatch (tshape this) (tshape other), this, h)"
  by (simp add: Tensor_assign_other_def checkShape_eq)

lemma Tensor_assign_unallocated:
  assumes na: "\<not> isAlloced dest" and dyn: "ctSize dest = 0" and ty: "dims dest = dims src"
    and v: "valid h src"
    and fit: "tsize src \<le> allocedBytes sizeofT (tsize src) div sizeofT"
  shows "\<exists>dest' h'. Tensor_assign (Fresh c) sizeofT dest src h = Inr (dest', h') \<and>
           tshape dest' = tshape src \<and> tsize dest' = tsize src \<and>
           data dest' = Heap (length h) \<and>
           elements dest' h' = elements src h \<and> elements src h' = elements src h \<and>
           (\<forall>i v. elements dest' (snd (poke src i v h')) = elements dest' h')"
proof -
  let ?n = "extent_product (tshape src)"
  let ?d1 = "dest\<lparr>tshape := tshape src, tsize := ?n,
                   heapData := Heap (length h), data := Heap (length h)\<rparr>"
  let ?h1 = "h @ [Live (replicate ?n 0 @ map c [?n..<allocedBytes sizeofT ?n div sizeofT])]"
  have fit': "?n \<le> allocedBytes sizeofT ?n div sizeofT"
    using fit v by (simp add: valid_size)
  have al: "alloc (Fresh c) sizeofT (tshape src) dest h = Inr (?d1, ?h1)"
    using na dyn fit' by (rule alloc_unallocated_dynamic)
  have srcdyn: "ctSize src = 0"
    using dyn ty by (simp add: ctSize_def)
  obtain b where b: "data src = Heap b" "b < length h"
    using v srcdyn by (auto simp: valid_def split: ptr.splits)
  have v1: "valid ?h1 ?d1"
    using v dyn ty by (simp add: valid_def ctSize_def)
  have v2: "valid ?h1 src"
    using v by (rule valid_append)
  have sep: "separate ?d1 src"
    using b by (simp add: separate_def split: ptr.splits)
  from memcpy_copies [OF v1 v2 _ sep]
  obtain dest' h' where r: "memcpy_from ?d1 src ?h1 (tsize src) = Inr (dest', h')"
      "elements dest' h' = elements src ?h1" "elements src h' = elements src ?h1"
      "tshape dest' = tshape ?d1" "tsize dest' = tsize ?d1" "data dest' = data ?d1"
      "\<forall>i v. elements dest' (snd (poke src i v h')) = elements dest' h'"
    by auto
  have e: "elements src ?h1 = elements src h"
    using v by (rule elements_append)
  have "Tensor_assign (Fresh c) sizeofT dest src h = Inr (dest', h')"
    using na al r(1) by (simp add: Tensor_assign_def)
  with r e v show ?thesis
    by (simp add: valid_size)
qed

section \<open>Facts about copies and moves\<close>

lemma buffer_poke_separate:
  assumes "separate t u"
  shows "elements u (snd (poke t i v h)) = elements u h"
  using assms by (simp add: elements_def buffer_poke_other)

lemma Tensor_copy_inline:
  assumes v: "valid h other" and st: "0 < ctSize other"
  shows "\<exists>cp h'. Tensor_copy env sizeofT other c g h = Inr (cp, h') \<and>
           elements cp h' = elements other h \<and> elements other h' = elements other h \<and>
           tshape cp = tshape other \<and> tsize cp = tsize other \<and> separate cp other \<and>
           (\<forall>i v. elements cp (snd (poke other i v h')) = elements cp h')"
proof -
  let ?ds = "dims other"
  let ?t0 = "(raw_Tensor ?ds c g)\<lparr>tshape := ?ds, tsize := extent_product ?ds, data := Static,
                  staticData := replicate (extent_product ?ds) 0\<rparr>"
  have pos: "0 < extent_product ?ds"
    using st by (simp add: ctSize_def)
  have sh: "tshape other = ?ds"
    using v st by (simp add: valid_def)
  have d: "Tensor_default env sizeofT ?ds c g h = Inr (?t0, h)"
    using pos by (rule Tensor_default_inline)
  have al: "isAlloced ?t0"
    by (simp add: isAlloced_def)
  have v0: "valid h ?t0"
    using pos by (simp add: valid_def ctSize_def raw_Tensor_def)
  have sep: "separate ?t0 other"
    by (simp add: separate_def)
  have sh0: "tshape ?t0 = tshape other"
    using sh by simp
  have eq: "Tensor_copy env sizeofT other c g h = memcpy_from ?t0 other h (tsize other)"
    using d al sh0
    by (simp add: Tensor_copy_def alloc_allocated Tensor_assign_allocated
        Tensor_assign_other_match del: Tensor.simps)
  from memcpy_copies [OF v0 v sh0 sep]
  obtain cp h' where r: "memcpy_from ?t0 other h (tsize other) = Inr (cp, h')"
      "elements cp h' = elements other h" "elements other h' = elements other h"
      "tshape cp = tshape ?t0" "tsize cp = tsize ?t0" "data cp = data ?t0"
      "\<forall>i v. elements cp (snd (poke other i v h')) = elements cp h'"
    by blast
  have "separate cp other"
    using r(6) by (simp add: separate_def)
  moreover have "tsize cp = tsize other"
    using r(5) v sh by (simp add: valid_size)
  ultimately show ?thesis
    unfolding eq using r sh by auto
qed

lemma Tensor_copy_dynamic:
  assumes v: "valid h other" and dyn: "ctSize other = 0"
    and fit: "tsize other \<le> allocedBytes sizeofT (tsize other) div sizeofT"
  shows "\<exists>cp h'. Tensor_copy (Fresh c') sizeofT other c g h = Inr (cp, h') \<and>
           elements cp h' = elements other h \<and> elements other h' = elements other h \<and>
           tshape cp = tshape other \<and> tsize cp = tsize other \<and> separate cp other \<and>
           (\<forall>i v. elements cp (snd (poke other i v h')) = elements cp h')"
proof -
  let ?raw = "raw_Tensor (dims other) c g"
  let ?n = "extent_product (tshape other)"
  let ?d1 = "?raw\<lparr>tshape := tshape other, tsize := ?n,
                   heapData := Heap (length h), data := Heap (length h)\<rparr>"
  let ?h1 = "h @ [Live (replicate ?n 0 @ map c' [?n..<allocedBytes sizeofT ?n div sizeofT])]"
  have fit': "?n \<le> allocedBytes sizeofT ?n div sizeofT"
    using fit v by (simp add: valid_size)
  have z: "extent_product (dims other) = 0"
    using dyn by (simp add: ctSize_def)
  have raw: "\<not> isAlloced ?raw" "ctSize ?raw = 0" "dims ?raw = dims other"
    using z by (simp_all add: raw_Tensor_facts)
  have d: "Tensor_default (Fresh c') sizeofT (dims other) c g h = Inr (?raw, h)"
    using z by (simp add: Tensor_default_def Let_def raw_Tensor_facts)
  have al: "alloc (Fresh c') sizeofT (tshape other) ?raw h = Inr (?d1, ?h1)"
    using raw(1,2) fit' by (rule alloc_unallocated_dynamic)
  have a1: "isAlloced ?d1"
    by (simp add: isAlloced_def)
  have eq1: "Tensor_copy (Fresh c') sizeofT other c g h =
      memcpy_from ?d1 other ?h1 (tsize other)"
    using d al a1
    by (simp add: Tensor_copy_def Tensor_assign_allocated Tensor_assign_other_match
        del: Tensor.simps)
  have eq2: "Tensor_assign (Fresh c') sizeofT ?raw other h =
      memcpy_from ?d1 other ?h1 (tsize other)"
    using raw(1) al by (simp add: Tensor_assign_def del: Tensor.simps)
  from Tensor_assign_unallocated [OF raw v fit, of c']
  obtain cp h' where r: "Tensor_assign (Fresh c') sizeofT ?raw other h = Inr (cp, h')"
      "tshape cp = tshape other" "tsize cp = tsize other" "data cp = Heap (length h)"
      "elements cp h' = elements other h" "elements other h' = elements other h"
      "\<forall>i v. elements cp (snd (poke other i v h')) = elements cp h'"
    by blast
  obtain b where b: "data other = Heap b" "b < length h"
    using v dyn by (auto simp: valid_def split: ptr.splits)
  have "separate cp other"
    using r(4) b by (simp add: separate_def)
  then show ?thesis
    unfolding eq1 eq2 [symmetric] using r by auto
qed

lemma Tensor_move_inline:
  assumes v: "valid h other" and st: "0 < ctSize other"
  shows "\<exists>this other'. Tensor_move other c = Inr (this, other') \<and>
           elements this h = elements other h \<and> tshape this = tshape other \<and>
           tsize this = tsize other \<and> data this = Static \<and>
           tsize other' = 0 \<and> \<not> isAlloced other'"
proof -
  have pos: "0 < extent_product (dims other)"
    using st by (simp add: ctSize_def)
  have f: "data other = Static" "length (staticData other) = extent_product (dims other)"
      "tsize other = extent_product (dims other)"
    using v st by (simp_all add: valid_def ctSize_def)
  show ?thesis
    using f pos
    by (simp add: Tensor_move_def Let_def cleared_def isAlloced_def elements_def buffer_def
        ctSize_def raw_Tensor_def)
qed

lemma Tensor_move_dynamic:
  assumes v: "valid h other" and dyn: "ctSize other = 0"
  shows "\<exists>this other'. Tensor_move other c = Inr (this, other') \<and>
           elements this h = elements other h \<and> tshape this = tshape other \<and>
           tsize this = tsize other \<and> data this = data other \<and>
           heapData this = heapData other \<and> heapData other' = Null \<and>
           tsize other' = 0 \<and> \<not> isAlloced other'"
proof -
  obtain a where a: "data other = Heap a" "heapData other = Heap a"
    using v dyn by (auto simp: valid_def split: ptr.splits)
  have z: "extent_product (dims other) = 0"
    using dyn by (simp add: ctSize_def)
  show ?thesis
    using a z
    by (simp add: Tensor_move_def Let_def cleared_def isAlloced_def elements_def buffer_def
        ctSize_def raw_Tensor_def)
qed

lemma Tensor_move_assign_inline:
  assumes v: "valid h other" and vt: "valid h this" and ty: "dims this = dims other"
    and st: "0 < ctSize other"
  shows "\<exists>this' other' h'. Tensor_move_assign False this other h = Inr (this', other', h') \<and>
           elements this' h' = elements other h \<and> tshape this' = tshape other \<and>
           tsize this' = tsize other \<and> data this' = Static \<and> h' = h \<and>
           tsize other' = 0 \<and> \<not> isAlloced other'"
proof -
  have ct: "ctSize this = ctSize other"
    using ty by (simp add: ctSize_def)
  have f: "data other = Static" "length (staticData other) = ctSize other"
      "tsize other = ctSize other"
    using v st by (simp_all add: valid_def ctSize_def)
  have fr: "free this h = Inr (cleared this, h)"
    using st ct by (simp add: free_def)
  show ?thesis
    using st f ct
    by (simp add: Tensor_move_assign_def fr Let_def cleared_def isAlloced_def
        elements_def buffer_def)
qed

lemma Tensor_move_assign_dynamic:
  assumes v: "valid h other" and vt: "valid h this" and ty: "dims this = dims other"
    and dyn: "ctSize other = 0" and sep: "separate this other"
  shows "\<exists>this' other' h'. Tensor_move_assign False this other h = Inr (this', other', h') \<and>
           elements this' h' = elements other h \<and> tshape this' = tshape other \<and>
           tsize this' = tsize other \<and> data this' = data other \<and>
           heapData this' = heapData other \<and>
           heapData other' = Null \<and> tsize other' = 0 \<and> \<not> isAlloced other'"
proof -
  have ct: "ctSize this = 0"
    using ty dyn by (simp add: ctSize_def)
  obtain a xs where a: "data this = Heap a" "heapData this = Heap a" "a < length h"
      "h ! a = Live xs"
    using vt ct by (auto simp: valid_def split: ptr.splits block.splits)
  obtain b ys where b: "data other = Heap b" "heapData other = Heap b" "b < length h"
      "h ! b = Live ys"
    using v dyn by (auto simp: valid_def split: ptr.splits block.splits)
  have ne: "a \<noteq> b"
    using sep a(1) b(1) by (simp add: separate_def)
  have fr: "free this h = Inr (cleared this, h[a := Released])"
    using ct a(2,3,4) by (rule free_live)
  show ?thesis
    using ct a b ne
    by (simp add: Tensor_move_assign_def fr Let_def cleared_def isAlloced_def
        elements_def buffer_def)
qed

lemma free_null:
  assumes "heapData t = Null \<or> 0 < ctSize t"
  shows "free t h = Inr (cleared t, h)"
  using assms by (auto simp: free_def std_free_def)

lemma Tensor_copy_independent:
  assumes v: "valid h other"
    and fit: "tsize other \<le> allocedBytes sizeofT (tsize other) div sizeofT"
  shows "\<exists>cp h'. Tensor_copy (Fresh c') sizeofT other c g h = Inr (cp, h') \<and>
           elements cp h' = elements other h \<and> elements other h' = elements other h \<and>
           tshape cp = tshape other \<and> tsize cp = tsize other \<and>
           (\<forall>i v. elements cp (snd (poke other i v h')) = elements cp h') \<and>
           (\<forall>i v. elements other (snd (poke cp i v h')) = elements other h')"
proof -
  have "\<exists>cp h'. Tensor_copy (Fresh c') sizeofT other c g h = Inr (cp, h') \<and>
           elements cp h' = elements other h \<and> elements other h' = elements other h \<and>
           tshape cp = tshape other \<and> tsize cp = tsize other \<and> separate cp other \<and>
           (\<forall>i v. elements cp (snd (poke other i v h')) = elements cp h')"
  proof (cases "0 < ctSize other")
    case True
    with v show ?thesis by (rule Tensor_copy_inline)
  next
    case False
    then have "ctSize other = 0" by simp
    with v show ?thesis using fit by (rule Tensor_copy_dynamic)
  qed
  then obtain cp h' where r: "Tensor_copy (Fresh c') sizeofT other c g h = Inr (cp, h')"
      "elements cp h' = elements other h" "elements other h' = elements other h"
      "tshape cp = tshape other" "tsize cp = tsize other" "separate cp other"
      "\<forall>i v. elements cp (snd (poke other i v h')) = elements cp h'"
    by blast
  have "\<forall>i v. elements other (snd (poke cp i v h')) = elements other h'"
    using r(6) by (simp add: buffer_poke_separate)
  with r show ?thesis by blast
qed

lemma Tensor_move_transfers:
  assumes v: "valid h other"
  shows "\<exists>this other'. Tensor_move other c = Inr (this, other') \<and>
           elements this h = elements other h \<and>
           tshape this = tshape other \<and> tsize this = tsize other \<and>
           (if 0 < ctSize other then data this = Static
            else data this = data other \<and> heapData this = heapData other \<and>
                 heapData other' = Null) \<and>
           tsize other' = 0 \<and> \<not> isAlloced other' \<and> dims other' = dims other"
proof (cases "0 < ctSize other")
  case True
  from Tensor_move_inline [OF v True, of c] True show ?thesis
    by (auto simp: Tensor_move_def Let_def cleared_def split: if_splits)
next
  case False
  then have z: "ctSize other = 0" by simp
  from Tensor_move_dynamic [OF v z, of c] z show ?thesis
    by (auto simp: Tensor_move_def Let_def cleared_def split: if_splits)
qed

lemma Tensor_move_assign_transfers:
  assumes v: "valid h other" and vt: "valid h this" and ty: "dims this = dims other"
    and sep: "separate this other"
  shows "\<exists>this' other' h'. Tensor_move_assign False this other h = Inr (this', other', h') \<and>
           elements this' h' = elements other h \<and>
           tshape this' = tshape other \<and> tsize this' = tsize other \<and>
           (if 0 < ctSize other then data this' = Static
            else data this' = data other \<and> heapData this' = heapData other \<and>
                 heapData other' = Null) \<and>
           tsize other' = 0 \<and> \<not> isAlloced other' \<and> dims other' = dims other"
proof (cases "0 < ctSize other")
  case True
  from Tensor_move_assign_inline [OF v vt ty True] True show ?thesis
    by (auto simp: Tensor_move_assign_def Let_def cleared_def split: if_splits sum.splits)
next
  case False
  then have z: "ctSize other = 0" by simp
  from Tensor_move_assign_dynamic [OF v vt ty z sep] z show ?thesis
    by (auto simp: Tensor_move_assign_def Let_def cleared_def split: if_splits sum.splits)
qed

lemma Tensor_move_assign_stale_destination:
  assumes "ctSize this = 0"
    and "heapData this = Indeterminate \<or>
         (\<exists>a. heapData this = Heap a \<and> a < length h \<and> h ! a = Released)"
  shows "Tensor_move_assign False this other h = Inl InvalidFree"
  using assms by (auto simp: Tensor_move_assign_def free_def std_free_def)

lemma alloc_returns_zeros:
  assumes "\<not> isAlloced u" and "alloc env sizeofT sh u h = Inr (u', h')"
  shows "elements u' h' = Some (replicate (tsize u') 0)"
proof (cases "0 < ctSize u")
  case True
  let ?t1 = "u\<lparr>tshape := dims u, tsize := ctSize u, data := Static\<rparr>"
  have f: "fill_n ?t1 h (ctSize u) 0 = Inr (u', h')"
    using assms True by (simp add: alloc_def Let_def)
  have b: "buffer ?t1 h = Some (staticData u)"
    by (simp add: buffer_def)
  have le: "ctSize u \<le> length (staticData u)"
    using f True b by (auto simp: fill_n_def for_each_def split: if_splits)
  have "u' = ?t1\<lparr>staticData := replicate (ctSize u) 0 @ drop (ctSize u) (staticData u)\<rparr>"
      "h' = h"
    using f True b le by (auto simp: fill_n_def fill_loop set_buffer_def)
  then show ?thesis
    by (simp add: elements_def buffer_def)
next
  case False
  then have dyn: "ctSize u = 0" by simp
  let ?s = "extent_product sh"
  let ?k = "allocedBytes sizeofT ?s div sizeofT"
  obtain c where env: "env = Fresh c"
    using assms dyn by (cases env) (auto simp: alloc_def aligned_alloc_def Let_def)
  have fit: "?s \<le> ?k"
  proof (rule ccontr)
    assume "\<not> ?s \<le> ?k"
    then have "?k < ?s" by simp
    from alloc_block_too_small [OF assms(1) dyn this, of c h] assms(2) env
    show False by simp
  qed
  from alloc_unallocated_dynamic [OF assms(1) dyn fit, of c h] assms(2) env
  have "u' = u\<lparr>tshape := sh, tsize := ?s, heapData := Heap (length h),
                 data := Heap (length h)\<rparr>"
       "h' = h @ [Live (replicate ?s 0 @ map c [?s..<?k])]"
    by simp_all
  then show ?thesis
    by (simp add: elements_dynamic_fresh)
qed

section \<open>Fused kernels against the two passes\<close>

text \<open>
  Every kernel that the source defines with a well-formed body computes, on operands of
  the length of the destination, what the two passes compute (over a field, that is up
  to the rounding of the fused step).
\<close>

lemma two_pass_scalar_nth:
  "length v = length dest \<Longrightarrow>
   two_pass_scalar source destination dest v s =
     map (\<lambda>i. combine_value destination (dest ! i) (source_value source (v ! i) s))
       [0..<length dest]"
  by (rule nth_equalityI) (simp_all add: two_pass_scalar_def)

lemma two_pass_nth:
  "length l = length dest \<Longrightarrow> length r = length dest \<Longrightarrow>
   two_pass source destination dest l r =
     map (\<lambda>i. combine_value destination (dest ! i) (source_value source (l ! i) (r ! i)))
       [0..<length dest]"
  by (rule nth_equalityI) (simp_all add: two_pass_def)

lemma for_each_map:
  "for_each (length d) (\<lambda>i. f) d = Inr (map f d)"
  unfolding for_each_whole by (simp, rule nth_equalityI) simp_all

lemma zip_loop_whole:
  "n = length d \<Longrightarrow> length x = length d \<Longrightarrow>
   zip_loop n f d x = Inr (map (\<lambda>i. f (d ! i) (x ! i)) [0..<length d])"
  by (simp add: zip_loop_closed)

lemma zip_loop2_whole:
  "n = length d \<Longrightarrow> length x = length d \<Longrightarrow> length y = length d \<Longrightarrow>
   zip_loop2 n f d x y = Inr (map (\<lambda>i. f (d ! i) (x ! i) (y ! i)) [0..<length d])"
  by (simp add: zip_loop2_def for_each_closed)

lemma cblas_axpy_vector:
  "n = length y \<Longrightarrow> length x = length y \<Longrightarrow>
   cblas_axpy n alpha x (Suc 0) y = Inr (map (\<lambda>i. y ! i + alpha * x ! i) [0..<length y])"
  by (cases "length y") (simp_all add: cblas_axpy_def for_each_closed)

lemma cblas_axpy_scalar:
  "n = length y \<Longrightarrow>
   cblas_axpy n alpha [s] 0 y = Inr (map (\<lambda>i. y ! i + alpha * s) [0..<length y])"
  by (simp add: cblas_axpy_def for_each_closed)


lemmas atom_defs =
  add_T_def add_S_def sub_T_def sub_S_def subLeft_T_def subLeft_S_def mul_T_def mul_S_def
  div_T_def div_S_def divLeft_T_def divLeft_S_def copyTo_def setConstant_def setOne_def
  andThen_def fma_def Let_def

lemmas loop_closed =
  zip_loop_whole zip_loop2_whole for_each_whole cblas_axpy_vector cblas_axpy_scalar

lemma STOPImpl_generic_fused:
  assumes "length v = length dest" and "STOPImpl_generic source destination = Some k"
  shows "k dest v s = Inr (two_pass_scalar source destination dest v s)"
  using assms
  by (cases source; cases destination)
     (auto simp: two_pass_scalar_nth atom_defs loop_closed source_value_def combine_value_def
        divide_inverse algebra_simps cong: map_cong)


lemma Tensor_assign_elems_whole:
  "length other = length dest \<Longrightarrow> Tensor_assign_elems dest other = Inr other"
  by (simp add: Tensor_assign_elems_def copy_loop)

lemma Vector_assign_whole:
  "length other = length dest \<Longrightarrow> Vector_assign dest other = Inr other"
  by (simp add: Vector_assign_def copy_loop)

lemma copyTo_whole:
  "length b = length a \<Longrightarrow> copyTo a b = Inr b"
  by (simp add: copyTo_def copy_loop)

lemma scalar_blas_fused:
  assumes "length v = length dest" and "scalar_blas assign source destination = Some k"
    and "assign dest v = Inr v"
  shows "k dest v s = Inr (two_pass_scalar source destination dest v s)"
  using assms
  by (cases source; cases destination)
     (auto simp: two_pass_scalar_nth atom_defs loop_closed source_value_def combine_value_def
        divide_inverse algebra_simps cong: map_cong)

lemma SVOPImpl_generic_fused:
  assumes "length v = length dest" and "SVOPImpl_generic source destination = Some k"
  shows "k dest v s = Inr (two_pass_scalar source destination dest v s)"
  using assms
  by (cases source; cases destination)
     (auto simp: two_pass_scalar_nth atom_defs copyTo_whole loop_closed source_value_def
        combine_value_def divide_inverse algebra_simps cong: map_cong)

lemma VVOPImpl_generic_fused:
  assumes "length l = length dest" and "length r = length dest"
    and "VVOPImpl_generic source destination = Some k"
  shows "k dest l r = Inr (two_pass source destination dest l r)"
  using assms
  by (cases source; cases destination)
     (auto simp: two_pass_nth atom_defs copyTo_whole loop_closed source_value_def
        combine_value_def divide_inverse algebra_simps cong: map_cong)

lemma VVOPImpl_blas_fused:
  assumes "length l = length dest" and "length r = length dest"
    and "VVOPImpl_blas source destination = Some k"
  shows "k dest l r = Inr (two_pass source destination dest l r)"
  using assms
  by (cases source; cases destination)
     (auto simp: two_pass_nth atom_defs Vector_assign_whole loop_closed source_value_def
        combine_value_def divide_inverse algebra_simps cong: map_cong)


lemma STOPImpl_fused:
  assumes "length v = length dest" and "STOPImpl ty source destination = Some k"
  shows "k dest v s = Inr (two_pass_scalar source destination dest v s)"
proof (cases ty)
  case Generic
  with assms show ?thesis by (simp add: STOPImpl_def STOPImpl_generic_fused)
next
  case Double
  with assms show ?thesis
    by (simp add: STOPImpl_def scalar_blas_fused Tensor_assign_elems_whole)
next
  case Float
  with assms show ?thesis
    by (simp add: STOPImpl_def scalar_blas_float_def scalar_blas_fused
        Tensor_assign_elems_whole split: if_splits)
qed

lemma SVOPImpl_fused:
  assumes "length v = length dest" and "SVOPImpl ty source destination = Some k"
  shows "k dest v s = Inr (two_pass_scalar source destination dest v s)"
proof (cases ty)
  case Generic
  with assms show ?thesis by (simp add: SVOPImpl_def SVOPImpl_generic_fused)
next
  case Double
  with assms show ?thesis
    by (simp add: SVOPImpl_def scalar_blas_fused Vector_assign_whole)
next
  case Float
  with assms show ?thesis
    by (simp add: SVOPImpl_def scalar_blas_float_def scalar_blas_fused
        Vector_assign_whole split: if_splits)
qed

lemma VVOPImpl_fused:
  assumes "length l = length dest" and "length r = length dest"
    and "VVOPImpl ty source destination = Some k"
  shows "k dest l r = Inr (two_pass source destination dest l r)"
  using assms
  by (cases ty) (simp_all add: VVOPImpl_def VVOPImpl_generic_fused VVOPImpl_blas_fused)

lemma Tensor_consume_fused:
  fixes this :: "'a::field tview"
    and k :: "'a list \<Rightarrow> 'a list \<Rightarrow> 'a \<Rightarrow> error + 'a list"
  assumes "shape this = shape vec" and "length (elems vec) = length (elems this)"
    and "STOPImpl ty op destination = Some k"
  shows "Tensor_consume ty destination this (STOP vec scalar op) =
           Inr (this\<lparr>elems := two_pass_scalar op destination (elems this) (elems vec) scalar\<rparr>)"
  using assms STOPImpl_fused [OF assms(2,3), of scalar]
  by (simp add: Tensor_consume_def checkShape_eq andThen_def with_elems_def)

lemma Vector_consume_SVOP_fused:
  fixes this :: "'a::field list"
    and k :: "'a list \<Rightarrow> 'a list \<Rightarrow> 'a \<Rightarrow> error + 'a list"
  assumes "length vec = length this" and "SVOPImpl ty op destination = Some k"
  shows "Vector_consume_SVOP ty destination this (SVOP vec scalar op) =
           Inr (two_pass_scalar op destination this vec scalar)"
  using assms SVOPImpl_fused [OF assms, of scalar]
  by (simp add: Vector_consume_SVOP_def)

lemma Vector_consume_VVOP_fused:
  fixes this :: "'a::field list"
    and k :: "'a list \<Rightarrow> 'a list \<Rightarrow> 'a list \<Rightarrow> error + 'a list"
  assumes "length lhs = length this" and "length rhs = length this"
    and "VVOPImpl ty op destination = Some k"
  shows "Vector_consume_VVOP ty destination this (VVOP lhs rhs op) =
           Inr (two_pass op destination this lhs rhs)"
  using assms VVOPImpl_fused [OF assms]
  by (simp add: Vector_consume_VVOP_def)

lemma STOPImpl_kernels:
  "STOPImpl ty source destination = None \<longleftrightarrow>
     source = Assign \<or> destination = SubLeft \<or> destination = DivLeft \<or>
     (ty = Generic \<and> destination = Assign) \<or>
     (ty = Float \<and> source = SubLeft \<and> destination = Assign)"
  by (cases ty; cases source; cases destination)
     (simp_all add: STOPImpl_def scalar_blas_float_def)

lemma SVOPImpl_kernels:
  "SVOPImpl ty source destination = None \<longleftrightarrow>
     source = Assign \<or> destination = SubLeft \<or> destination = DivLeft \<or>
     (ty \<noteq> Double \<and> source = SubLeft \<and> destination = Assign)"
  by (cases ty; cases source; cases destination)
     (simp_all add: SVOPImpl_def scalar_blas_float_def)

lemma VVOPImpl_kernels:
  "VVOPImpl ty source destination = None \<longleftrightarrow>
     source = Assign \<or> source = SubLeft \<or> source = DivLeft \<or>
     destination = SubLeft \<or> destination = DivLeft \<or>
     (ty = Generic \<and> source = Sub \<and> destination = Mul)"
  by (cases ty; cases source; cases destination) (simp_all add: VVOPImpl_def)

lemma plus_assign_times_scalar_example:
  "Tensor_plus_assign_STOP ty \<lparr>shape = [n], elems = replicate n (1 :: real)\<rparr>
     (Tensor_times_scalar \<lparr>shape = [n], elems = replicate n 2\<rparr> 4)
   = Inr \<lparr>shape = [n], elems = replicate n 9\<rparr>"
proof -
  obtain k where k: "STOPImpl ty Mul Add = Some (k :: real list \<Rightarrow> real list \<Rightarrow> real \<Rightarrow> error + real list)"
    by (cases ty) (simp_all add: STOPImpl_def scalar_blas_float_def)
  have "two_pass_scalar Mul Add (replicate n (1 :: real)) (replicate n 2) 4 = replicate n 9"
    by (rule nth_equalityI)
       (simp_all add: two_pass_scalar_def source_value_def combine_value_def)
  with Tensor_consume_fused [where this = "\<lparr>shape = [n], elems = replicate n (1 :: real)\<rparr>"
      and vec = "\<lparr>shape = [n], elems = replicate n (2 :: real)\<rparr>" and scalar = "4 :: real",
      OF _ _ k]
  show ?thesis
    by (simp add: Tensor_plus_assign_STOP_def Tensor_times_scalar_def)
qed

section \<open>Facts about byte counts and copy assignment\<close>

lemma Tensor_copy_assignment:
  "(valid h dest \<and> valid h src \<and> tshape dest = tshape src \<and> separate dest src \<longrightarrow>
      (\<exists>dest' h'. Tensor_assign env sizeofT dest src h = Inr (dest', h') \<and>
           elements dest' h' = elements src h \<and> elements src h' = elements src h \<and>
           tshape dest' = tshape dest \<and>
           (\<forall>i v. elements dest' (snd (poke src i v h')) = elements dest' h')))
   \<and> (isAlloced dest \<and> tshape dest \<noteq> tshape src \<longrightarrow>
        Tensor_assign env sizeofT dest src h =
          Inl (if length (tshape dest) \<noteq> length (tshape src)
               then DimensionError (length (tshape dest)) (length (tshape src))
               else SizeMismatch (tshape dest) (tshape src), dest, h))
   \<and> (\<not> isAlloced dest \<and> ctSize dest = 0 \<and> dims dest = dims src \<and> valid h src \<and>
        tsize src \<le> allocedBytes sizeofT (tsize src) div sizeofT \<longrightarrow>
        (\<exists>dest' h'. Tensor_assign (Fresh c) sizeofT dest src h = Inr (dest', h') \<and>
           tshape dest' = tshape src \<and> tsize dest' = tsize src \<and>
           data dest' = Heap (length h) \<and>
           elements dest' h' = elements src h \<and> elements src h' = elements src h \<and>
           (\<forall>i v. elements dest' (snd (poke src i v h')) = elements dest' h')))"
proof (intro conjI impI)
  assume a: "valid h dest \<and> valid h src \<and> tshape dest = tshape src \<and> separate dest src"
  then have v: "valid h dest" "valid h src" and sh: "tshape dest = tshape src"
    and sep: "separate dest src"
    by simp_all
  have eq: "Tensor_assign env sizeofT dest src h = memcpy_from dest src h (tsize src)"
    using valid_isAlloced [OF v(1)] sh
    by (simp_all add: Tensor_assign_allocated Tensor_assign_other_match)
  from memcpy_copies [OF v sh sep]
  show "\<exists>dest' h'. Tensor_assign env sizeofT dest src h = Inr (dest', h') \<and>
           elements dest' h' = elements src h \<and> elements src h' = elements src h \<and>
           tshape dest' = tshape dest \<and>
           (\<forall>i v. elements dest' (snd (poke src i v h')) = elements dest' h')"
    unfolding eq by blast
next
  assume "isAlloced dest \<and> tshape dest \<noteq> tshape src"
  then show "Tensor_assign env sizeofT dest src h =
          Inl (if length (tshape dest) \<noteq> length (tshape src)
               then DimensionError (length (tshape dest)) (length (tshape src))
               else SizeMismatch (tshape dest) (tshape src), dest, h)"
    by (simp add: Tensor_assign_allocated Tensor_assign_other_mismatch)
next
  assume "\<not> isAlloced dest \<and> ctSize dest = 0 \<and> dims dest = dims src \<and> valid h src \<and>
        tsize src \<le> allocedBytes sizeofT (tsize src) div sizeofT"
  then show "\<exists>dest' h'. Tensor_assign (Fresh c) sizeofT dest src h = Inr (dest', h') \<and>
           tshape dest' = tshape src \<and> tsize dest' = tsize src \<and>
           data dest' = Heap (length h) \<and>
           elements dest' h' = elements src h \<and> elements src h' = elements src h \<and>
           (\<forall>i v. elements dest' (snd (poke src i v h')) = elements dest' h')"
    using Tensor_assign_unallocated [of dest src h sizeofT c] by blast
qed

lemma allocedBytes_examples:
  "allocedBytes 8 2 = 16"
  "allocedBytes 8 3 = 32"
  "allocedBytes 8 4 = 32"
  "allocedBytes 8 2305843009213693952 = 0"
  by (simp_all add: allocedBytes_def alignment_def)

lemma storage_bytes_examples:
  "storage_bytes 8 2 = 16"
  "storage_bytes 8 3 = 32"
  "storage_bytes 8 2305843009213693952 = 0"
  by (simp_all add: storage_bytes_def alignment_def)

lemma upt_3_4: "[3..<4] = [3]"
  by (simp add: upt_rec)

lemma replicate_4: "replicate 4 x = [x, x, x, x]"
  by (simp add: numeral_eq_Suc)

lemma alloc_byte_count_wraps:
  assumes "\<not> isAlloced t" "ctSize t = 0"
  shows "alloc (Fresh c) 8 [2147483648, 1073741824] t h =
           Inl (OutOfBounds,
                t\<lparr>tshape := [2147483648, 1073741824], tsize := 2305843009213693952,
                  heapData := Heap (length h), data := Heap (length h)\<rparr>,
                h @ [Live []])"
proof -
  have e: "extent_product [2147483648, 1073741824] = 2305843009213693952"
    by (simp add: extent_product_simps)
  have "allocedBytes 8 (extent_product [2147483648, 1073741824]) div 8
          < extent_product [2147483648, 1073741824]"
    unfolding e by (simp add: allocedBytes_examples)
  from alloc_block_too_small [OF assms this, of c h] show ?thesis
    unfolding e by (simp add: allocedBytes_examples)
qed

section \<open>Arithmetic claims\<close>

text \<open>
  Claim C1 (fusion equivalence): for every source tag, every destination tag and all
  same-shape operands, the fused kernel gives at every index the result of materialising
  the source expression and then combining it into the destination.

  Every kernel with a well-formed body agrees with the two passes (lemmas
  \<open>Tensor_consume_fused\<close>, \<open>Vector_consume_SVOP_fused\<close>, \<open>Vector_consume_VVOP_fused\<close>), and
  \<open>b += (a * 4.0)\<close> with \<open>b\<close> all 1 and \<open>a\<close> all 2 gives 9 at every index (lemma
  \<open>plus_assign_times_scalar_example\<close>). The generic container-combine kernel for source
  \<open>Sub\<close> and destination \<open>Mul\<close> has no well-formed body, so \<open>dest *= (a - b)\<close> on a
  generic element type yields no result at all; the specialisation for \<open>double\<close>
  computes \<open>dest[i] * (a[i] - b[i])\<close>, here \<open>2 * (5 - 3) = 4\<close>. (The scalar-combine
  kernels for source \<open>SubLeft\<close> and destination \<open>Assign\<close> are ill-formed as well, for
  \<open>float\<close> in both families and in the generic table of the MatrixVector family: lemmas
  \<open>STOPImpl_kernels\<close>, \<open>SVOPImpl_kernels\<close>.)
\<close>

theorem C1_generic_Sub_Mul_kernel_ill_formed:
  "Vector_times_assign_VVOP Generic [2 :: real] (VVOP [5] [3] Sub) = Inl IllFormed \<and>
   Vector_times_assign_VVOP Double [2 :: real] (VVOP [5] [3] Sub) = Inr [4]"
  by (simp add: Vector_times_assign_VVOP_def Vector_consume_VVOP_def VVOPImpl_def kernel_defs)

text \<open>
  Claim C2 (reversed-operand scalar operations): \<open>s - a\<close> evaluates to \<open>s - a[i]\<close> and
  \<open>s / a\<close> to \<open>s / a[i]\<close> at every index.

  On a \<open>Vector\<close> of the Tensor family, \<open>5 - a\<close> with \<open>a = (1, 2)\<close> is computed by the
  eager operator as \<open>a[i] - 5\<close>, and \<open>5 / a\<close> as \<open>a[i] / 5\<close>. The descriptor built by
  \<open>scalar - Tensor\<close> and consumed by assignment gives \<open>5 - a[i]\<close>.
\<close>

theorem C2_scalar_minus_Vector_reversed:
  "scalar_minus_Vector Double 5 \<lparr>shape = [2], elems = [1, 2 :: real]\<rparr>
     = Inr \<lparr>shape = [2], elems = [- 4, - 3]\<rparr> \<and>
   scalar_div_Vector 5 \<lparr>shape = [2], elems = [1, 2 :: real]\<rparr>
     = Inr \<lparr>shape = [2], elems = [1 / 5, 2 / 5]\<rparr> \<and>
   Tensor_assign_STOP Double \<lparr>shape = [2], elems = [0, 0 :: real]\<rparr>
       (scalar_minus_Tensor 5 \<lparr>shape = [2], elems = [1, 2]\<rparr>)
     = Inr \<lparr>shape = [2], elems = [4, 3]\<rparr>"
  by (simp add: scalar_minus_Vector_def scalar_div_Vector_def Tensor_minus_assign_scalar_def
      Tensor_div_assign_scalar_def Tensor_assign_STOP_def Tensor_consume_def
      scalar_minus_Tensor_def STOPImpl_def Tensor_assign_elems_def checkShape_def
      with_elems_def kernel_defs)

text \<open>
  Claim C3 (plain-container compound subtraction): \<open>dest -= other\<close> updates every
  element to \<open>dest[i] - other[i]\<close>, and \<open>dest -= scalar\<close> to \<open>dest[i] - scalar\<close>, for every
  element type.

  For an element type other than \<open>double\<close> and \<open>float\<close>, \<open>Tensor::operator-=\<close> calls
  \<open>add\<close>: \<open>(5) -= (3)\<close> gives \<open>(8)\<close>, and \<open>(5) -= 3\<close> gives \<open>(8)\<close>. For \<open>double\<close> the
  results are \<open>(2)\<close>.
\<close>

theorem C3_generic_minus_assign_adds:
  "Tensor_minus_assign Generic \<lparr>shape = [1], elems = [5 :: real]\<rparr> \<lparr>shape = [1], elems = [3]\<rparr>
     = Inr \<lparr>shape = [1], elems = [8]\<rparr> \<and>
   Tensor_minus_assign_scalar Generic \<lparr>shape = [1], elems = [5 :: real]\<rparr> 3
     = Inr \<lparr>shape = [1], elems = [8]\<rparr> \<and>
   Tensor_minus_assign Double \<lparr>shape = [1], elems = [5 :: real]\<rparr> \<lparr>shape = [1], elems = [3]\<rparr>
     = Inr \<lparr>shape = [1], elems = [2]\<rparr> \<and>
   Tensor_minus_assign_scalar Double \<lparr>shape = [1], elems = [5 :: real]\<rparr> 3
     = Inr \<lparr>shape = [1], elems = [2]\<rparr>"
  by (simp add: Tensor_minus_assign_def Tensor_minus_assign_scalar_def checkShape_def
      with_elems_def kernel_defs)

text \<open>
  Claim C4 (shape checks precede kernels): every mismatched combination fails with a
  size-mismatch error before any destination element is written; in particular
  \<open>dest += src\<close> between containers of different sizes.

  In the MatrixVector family \<open>Vector::operator+=\<close> has no size check: with \<open>dest\<close> of
  size 2 and \<open>src\<close> of size 3 it returns normally with both elements of \<open>dest\<close>
  overwritten. \<open>operator-=\<close> on the same operands throws.
\<close>

theorem C4_Vector_plus_assign_unchecked:
  "Vector_plus_assign [1, 2 :: real] [10, 20, 30] = Inr [11, 22] \<and>
   Vector_minus_assign [1, 2 :: real] [10, 20, 30] = Inl LinalgSizeError"
  by (simp add: Vector_plus_assign_def Vector_minus_assign_def kernel_defs)

section \<open>Storage claims\<close>

text \<open>
  Claim C7 (allocation round-trip): \<open>alloc(n); free(); alloc(m)\<close> leaves \<open>size() == m\<close>
  and all elements zero; \<open>free()\<close> resets the length and the data pointer, and \<open>free()\<close> on
  an already-freed container is a no-op.

  \<open>free()\<close> leaves \<open>dataHolder.heapData\<close> as it was. On a dynamic container of
  \<open>double\<close> built with size 3 (a block of 32 bytes, four cells), the first \<open>free()\<close>
  releases the block; the second passes the same, now stale, pointer to \<open>std::free\<close>
  again.
\<close>

theorem C7_second_free_is_a_double_free:
  "Tensor_sized (Fresh (\<lambda>i. 7)) 8 [0] (\<lambda>i. 7) (\<lambda>i. 9) [3] []
     = Inr (\<lparr>dims = [0], staticData = [7], heapData = Heap 0, data = Heap 0,
              tsize = 3, tshape = [3]\<rparr>,
            [Live [0, 0, 0, 7 :: real]]) \<and>
   free \<lparr>dims = [0], staticData = [7], heapData = Heap 0, data = Heap 0,
          tsize = 3, tshape = [3]\<rparr>
        [Live [0, 0, 0, 7 :: real]]
     = Inr (\<lparr>dims = [0], staticData = [7], heapData = Heap 0, data = Null,
              tsize = 0, tshape = [0]\<rparr>,
            [Released]) \<and>
   free \<lparr>dims = [0], staticData = [7 :: real], heapData = Heap 0, data = Null,
          tsize = 0, tshape = [0]\<rparr>
        [Released]
     = Inl (InvalidFree,
            \<lparr>dims = [0], staticData = [7], heapData = Heap 0, data = Null,
              tsize = 0, tshape = [0]\<rparr>,
            [Released])"
proof (intro conjI)
  have raw: "\<not> isAlloced (raw_Tensor [0] (\<lambda>i. 7 :: real) (\<lambda>i. 9))"
    "ctSize (raw_Tensor [0] (\<lambda>i. 7 :: real) (\<lambda>i. 9)) = 0"
    by (simp_all add: raw_Tensor_def isAlloced_def ctSize_def extent_product_simps)
  have fit: "extent_product [3] \<le> allocedBytes 8 (extent_product [3]) div 8"
    by (simp add: extent_product_simps allocedBytes_examples)
  show "Tensor_sized (Fresh (\<lambda>i. 7)) 8 [0] (\<lambda>i. 7) (\<lambda>i. 9) [3] []
     = Inr (\<lparr>dims = [0], staticData = [7], heapData = Heap 0, data = Heap 0,
              tsize = 3, tshape = [3]\<rparr>,
            [Live [0, 0, 0, 7 :: real]])"
    unfolding Tensor_sized_def alloc_unallocated_dynamic [OF raw fit]
    by (simp add: raw_Tensor_def extent_product_simps replicate_3 allocedBytes_examples
        upt_3_4)
  show "free \<lparr>dims = [0], staticData = [7], heapData = Heap 0, data = Heap 0,
          tsize = 3, tshape = [3]\<rparr>
        [Live [0, 0, 0, 7 :: real]]
     = Inr (\<lparr>dims = [0], staticData = [7], heapData = Heap 0, data = Null,
              tsize = 0, tshape = [0]\<rparr>,
            [Released])"
    by (simp add: free_def std_free_def ctSize_def extent_product_simps cleared_def)
  show "free \<lparr>dims = [0], staticData = [7 :: real], heapData = Heap 0, data = Null,
          tsize = 0, tshape = [0]\<rparr>
        [Released]
     = Inl (InvalidFree,
            \<lparr>dims = [0], staticData = [7], heapData = Heap 0, data = Null,
              tsize = 0, tshape = [0]\<rparr>,
            [Released])"
    by (simp add: free_def std_free_def ctSize_def extent_product_simps)
qed

text \<open>
  Claim C8 (allocation failure is fatal): when the allocator cannot satisfy a request,
  the failure surfaces as a fatal error and the container is not left half-initialised.

  In the MatrixVector family \<open>Vector::alloc(3)\<close> on an empty dynamic vector returns
  normally when the allocator answers null: the vector then reports length 3 and holds
  a null pointer. \<open>Tensor::alloc\<close> throws \<open>std::bad_alloc\<close> on the same answer.
\<close>

theorem C8_Vector_alloc_ignores_failure:
  "Vector_alloc (OutOfMemory :: real malloc) 8 3 HeapStorage_default []
     = Inr (\<lparr>len = 3, alloced_size = 32, storage_data = Null\<rparr>, []) \<and>
   Tensor_sized (OutOfMemory :: real malloc) 8 [0] (\<lambda>i. 7) (\<lambda>i. 9) [3] []
     = Inl (BadAlloc,
            \<lparr>dims = [0], staticData = [7], heapData = Indeterminate, data = Null,
              tsize = 3, tshape = [3]\<rparr>,
            [])"
  by (simp add: Vector_alloc_def HeapStorage_alloc_def HeapStorage_default_def
      aligned_alloc_def Tensor_sized_def raw_Tensor_def alloc_def isAlloced_def ctSize_def
      extent_product_simps storage_bytes_examples Let_def)

text \<open>
  Claim C10 (fresh containers are zero-initialised): a container of compile-time fixed
  size holds all-zero elements right after default construction, in the Tensor family
  (\<open>Tensor()\<close> calls \<open>alloc\<close>, which zero-fills the inline array) and in the
  MatrixVector family (\<open>T _data[size] = {}\<close>); and a dynamic container of the Tensor
  family holds \<open>size()\<close> zeros right after a successful \<open>alloc\<close>.

  Whenever \<open>alloc\<close> on an unallocated container returns, the \<open>size()\<close> elements are zero;
  and on a dynamic container it does return when the allocator provides a block and the
  byte count \<open>sizeof(T) * s + alignment - 1\<close> stays inside \<open>size_t\<close>. (Beyond that the
  requested block is too small for \<open>size()\<close> elements and the zero fill leaves it: lemma
  \<open>alloc_byte_count_wraps\<close>.)
\<close>

theorem C10_fresh_containers_are_zero:
  "(0 < extent_product ds \<longrightarrow>
      (\<exists>t. Tensor_default env sizeofT ds c g h = Inr (t, h) \<and> tsize t = extent_product ds \<and>
           elements t h = Some (replicate (extent_product ds) 0)))
   \<and> inline_data (InlineStorage_default n) = replicate n 0
   \<and> (\<not> isAlloced u \<and> alloc env sizeofT sh u h = Inr (u', h') \<longrightarrow>
        elements u' h' = Some (replicate (tsize u') 0))
   \<and> (\<not> isAlloced u \<and> ctSize u = 0 \<and> 0 < sizeofT \<and>
        sizeofT * extent_product sh + 15 < 2 ^ 64 \<longrightarrow>
      (\<exists>u' h'. alloc (Fresh c') sizeofT sh u h = Inr (u', h') \<and> tsize u' = extent_product sh \<and>
               elements u' h' = Some (replicate (extent_product sh) 0)))"
proof (intro conjI impI)
  assume "0 < extent_product ds"
  then show "\<exists>t. Tensor_default env sizeofT ds c g h = Inr (t, h) \<and>
           tsize t = extent_product ds \<and>
           elements t h = Some (replicate (extent_product ds) 0)"
    by (simp add: Tensor_default_inline elements_def buffer_def)
next
  show "inline_data (InlineStorage_default n) = replicate n 0"
    by (simp add: InlineStorage_default_def)
next
  assume "\<not> isAlloced u \<and> alloc env sizeofT sh u h = Inr (u', h')"
  then show "elements u' h' = Some (replicate (tsize u') 0)"
    using alloc_returns_zeros [of u env sizeofT sh h u' h'] by simp
next
  assume a: "\<not> isAlloced u \<and> ctSize u = 0 \<and> 0 < sizeofT \<and>
        sizeofT * extent_product sh + 15 < 2 ^ 64"
  then have fit: "extent_product sh \<le> allocedBytes sizeofT (extent_product sh) div sizeofT"
    by (simp add: block_holds_size)
  from a have "\<not> isAlloced u" "ctSize u = 0"
    by simp_all
  from alloc_unallocated_dynamic [OF this fit, of c' h]
  show "\<exists>u' h'. alloc (Fresh c') sizeofT sh u h = Inr (u', h') \<and>
               tsize u' = extent_product sh \<and>
               elements u' h' = Some (replicate (extent_product sh) 0)"
    by (simp add: elements_dynamic_fresh)
qed

theorem C10_fresh_containers_are_zero_witness:
  "0 < extent_product [2]
   \<and> (\<exists>t. Tensor_default (Fresh (\<lambda>i. 5)) 8 [2] (\<lambda>i. 7) (\<lambda>i. 9) [] = Inr (t, []) \<and>
          tsize t = 2 \<and> elements t [] = Some [0, 0 :: real])
   \<and> \<not> isAlloced (raw_Tensor [0] (\<lambda>i. 7 :: real) (\<lambda>i. 9))
   \<and> ctSize (raw_Tensor [0] (\<lambda>i. 7 :: real) (\<lambda>i. 9)) = 0
   \<and> alloc (Fresh (\<lambda>i. 5)) 8 [3] (raw_Tensor [0] (\<lambda>i. 7 :: real) (\<lambda>i. 9)) []
       = Inr (\<lparr>dims = [0], staticData = [7], heapData = Heap 0, data = Heap 0,
                tsize = 3, tshape = [3]\<rparr>, [Live [0, 0, 0, 5]])
   \<and> elements \<lparr>dims = [0], staticData = [7 :: real], heapData = Heap 0, data = Heap 0,
                tsize = 3, tshape = [3]\<rparr> [Live [0, 0, 0, 5]] = Some [0, 0, 0]
   \<and> (0 :: nat) < 8 \<and> 8 * extent_product [3] + 15 < (2 :: nat) ^ 64
   \<and> (\<exists>u' h'. alloc (Fresh (\<lambda>i. 5)) 8 [3] (raw_Tensor [0] (\<lambda>i. 7 :: real) (\<lambda>i. 9)) []
                 = Inr (u', h') \<and>
          tsize u' = 3 \<and> elements u' h' = Some [0, 0, 0])"
proof -
  let ?raw = "raw_Tensor [0] (\<lambda>i. 7 :: real) (\<lambda>i. 9)"
  let ?u' = "\<lparr>dims = [0], staticData = [7 :: real], heapData = Heap 0, data = Heap 0,
               tsize = 3, tshape = [3]\<rparr>"
  let ?h' = "[Live [0, 0, 0, 5 :: real]]"
  have p: "0 < extent_product [2]" by (simp add: extent_product_simps)
  have e2: "extent_product [2] = 2" by (simp add: extent_product_simps)
  have e3: "extent_product [3] = 3" by (simp add: extent_product_simps)
  have q: "\<not> isAlloced ?raw" "ctSize ?raw = 0"
    by (simp_all add: raw_Tensor_facts extent_product_simps)
  have b: "(0 :: nat) < 8 \<and> 8 * extent_product [3] + 15 < (2 :: nat) ^ 64"
    by (simp add: e3)
  have fit: "extent_product [3] \<le> allocedBytes 8 (extent_product [3]) div 8"
    by (simp add: e3 allocedBytes_examples)
  have al: "alloc (Fresh (\<lambda>i. 5)) 8 [3] ?raw [] = Inr (?u', ?h')"
    unfolding alloc_unallocated_dynamic [OF q fit]
    by (simp add: raw_Tensor_def e3 replicate_3 allocedBytes_examples upt_3_4
        extent_product_simps)
  note inst = C10_fresh_containers_are_zero
    [where ds = "[2]" and env = "Fresh (\<lambda>i. 5)" and sizeofT = 8 and c = "\<lambda>i. 7 :: real"
       and g = "\<lambda>i. 9" and h = "[]" and u = ?raw and c' = "\<lambda>i. 5" and sh = "[3]"
       and u' = ?u' and h' = ?h' and n = 0]
  have A: "\<exists>t. Tensor_default (Fresh (\<lambda>i. 5)) 8 [2] (\<lambda>i. 7) (\<lambda>i. 9) [] = Inr (t, []) \<and>
          tsize t = 2 \<and> elements t [] = Some [0, 0 :: real]"
    using inst p by (auto simp: e2 replicate_2)
  have B: "elements ?u' ?h' = Some [0, 0, 0]"
    using inst [THEN conjunct2, THEN conjunct2, THEN conjunct1, THEN mp,
        OF conjI [OF q(1) al]]
    by (simp add: replicate_3)
  have C: "\<exists>u' h'. alloc (Fresh (\<lambda>i. 5)) 8 [3] ?raw [] = Inr (u', h') \<and>
          tsize u' = 3 \<and> elements u' h' = Some [0, 0, 0]"
    using inst q b by (auto simp: e3 replicate_3)
  from p q al b A B C show ?thesis by simp
qed

text \<open>
  Claim C6 (allocation idempotence): on a container that is already allocated, \<open>alloc\<close>
  does nothing; on an inline fixed-capacity container \<open>alloc\<close> is always a no-op.

  This fails in two places. The dynamic storage of the MatrixVector family has no
  guard: \<open>alloc\<close> on a storage of length 2 with a request for 3 takes the new length and a
  new block and releases the old one. And an inline \<open>Tensor\<close> that has been freed is not
  allocated, so \<open>alloc\<close> attaches the inline array again and zero-fills it.
\<close>

theorem C6_alloc_not_always_a_no_op:
  "HeapStorage_isAlloc \<lparr>len = 2, alloced_size = 16, storage_data = Heap 0\<rparr> \<and>
   HeapStorage_alloc (Fresh (\<lambda>i. 7)) 8 3
       \<lparr>len = 2, alloced_size = 16, storage_data = Heap 0\<rparr> [Live [1, 2 :: real]]
     = Inr (True, \<lparr>len = 3, alloced_size = 32, storage_data = Heap 1\<rparr>,
            [Released, Live [7, 7, 7, 7]]) \<and>
   HeapStorage_alloc (Fresh (\<lambda>i. 7)) 8 3
       \<lparr>len = 2, alloced_size = 16, storage_data = Heap 0\<rparr> [Live [1, 2 :: real]]
     \<noteq> Inr (True, \<lparr>len = 2, alloced_size = 16, storage_data = Heap 0\<rparr>, [Live [1, 2]]) \<and>
   alloc OutOfMemory 8 [0]
       \<lparr>dims = [2], staticData = [4, 5 :: real], heapData = Indeterminate, data = Null,
         tsize = 0, tshape = [0]\<rparr> []
     = Inr (\<lparr>dims = [2], staticData = [0, 0], heapData = Indeterminate, data = Static,
              tsize = 2, tshape = [2]\<rparr>, [])"
proof -
  have a: "HeapStorage_alloc (Fresh (\<lambda>i. 7)) 8 3
       \<lparr>len = 2, alloced_size = 16, storage_data = Heap 0\<rparr> [Live [1, 2 :: real]]
     = Inr (True, \<lparr>len = 3, alloced_size = 32, storage_data = Heap 1\<rparr>,
            [Released, Live [7, 7, 7, 7]])"
    by (simp add: HeapStorage_alloc_replaces [where a = 0 and xs = "[1, 2]"]
        storage_bytes_examples map_replicate_const replicate_4)
  have b: "alloc OutOfMemory 8 [0]
       \<lparr>dims = [2], staticData = [4, 5 :: real], heapData = Indeterminate, data = Null,
         tsize = 0, tshape = [0]\<rparr> []
     = Inr (\<lparr>dims = [2], staticData = [0, 0], heapData = Indeterminate, data = Static,
              tsize = 2, tshape = [2]\<rparr>, [])"
    by (subst alloc_unallocated_inline)
       (simp_all add: isAlloced_def ctSize_def extent_product_simps replicate_2)
  show ?thesis
    unfolding a using b by (simp add: HeapStorage_isAlloc_def)
qed

text \<open>
  Claim C6 as amended. In the Tensor family \<open>alloc\<close> on an allocated container, inline
  or dynamic, returns at once: object and heap are unchanged. On an inline \<open>Tensor\<close>
  that is not allocated (after \<open>free()\<close> or a move), \<open>alloc\<close> attaches the inline array
  with the compile-time shape and zero-fills it. In the MatrixVector family \<open>alloc\<close> on
  inline storage does nothing, and \<open>alloc\<close> on dynamic storage that owns a block takes
  the requested length and, when the allocator provides a block, replaces the old block
  by the new one (of \<open>_alloced_size\<close> bytes, as \<open>size_t\<close> arithmetic computes them) and
  releases the old one.
\<close>

theorem C6_alloc_when_allocated:
  "(isAlloced t \<longrightarrow> alloc env sizeofT sh t h = Inr (t, h))
   \<and> InlineStorage_alloc n s = (True, s)
   \<and> (\<not> isAlloced t \<and> 0 < ctSize t \<and> ctSize t \<le> length (staticData t) \<longrightarrow>
        (\<exists>t'. alloc env sizeofT sh t h = Inr (t', h) \<and> isAlloced t' \<and> tsize t' = ctSize t \<and>
              tshape t' = dims t \<and> elements t' h = Some (replicate (ctSize t) 0)))
   \<and> (storage_data st = Heap a \<and> a < length h \<and> h ! a = Live xs \<longrightarrow>
        HeapStorage_alloc (Fresh c) sizeofT m st h =
          Inr (True,
               st\<lparr>len := m, alloced_size := storage_bytes sizeofT m,
                  storage_data := Heap (length h)\<rparr>,
               (h @ [Live (map c [0..<storage_bytes sizeofT m div sizeofT])])[a := Released]))"
proof (intro conjI impI)
  show "alloc env sizeofT sh t h = Inr (t, h)" if "isAlloced t"
    using that by (rule alloc_allocated)
  show "InlineStorage_alloc n s = (True, s)"
    by (simp add: InlineStorage_alloc_def)
  show "\<exists>t'. alloc env sizeofT sh t h = Inr (t', h) \<and> isAlloced t' \<and> tsize t' = ctSize t \<and>
              tshape t' = dims t \<and> elements t' h = Some (replicate (ctSize t) 0)"
    if "\<not> isAlloced t \<and> 0 < ctSize t \<and> ctSize t \<le> length (staticData t)"
    using that by (simp add: alloc_unallocated_inline isAlloced_def elements_def buffer_def)
  show "HeapStorage_alloc (Fresh c) sizeofT m st h =
          Inr (True,
               st\<lparr>len := m, alloced_size := storage_bytes sizeofT m,
                  storage_data := Heap (length h)\<rparr>,
               (h @ [Live (map c [0..<storage_bytes sizeofT m div sizeofT])])[a := Released])"
    if "storage_data st = Heap a \<and> a < length h \<and> h ! a = Live xs"
    using that by (simp add: HeapStorage_alloc_replaces)
qed

theorem C6_alloc_when_allocated_witness:
  "isAlloced \<lparr>dims = [0], staticData = [7 :: real], heapData = Heap 0, data = Heap 0,
              tsize = 3, tshape = [3]\<rparr>
   \<and> alloc OutOfMemory 8 [5]
        \<lparr>dims = [0], staticData = [7 :: real], heapData = Heap 0, data = Heap 0,
          tsize = 3, tshape = [3]\<rparr> [Live [1, 2, 3]]
      = Inr (\<lparr>dims = [0], staticData = [7], heapData = Heap 0, data = Heap 0,
               tsize = 3, tshape = [3]\<rparr>, [Live [1, 2, 3]])
   \<and> storage_data \<lparr>len = 3, alloced_size = 32, storage_data = Heap 0\<rparr> = Heap 0
   \<and> (0 :: nat) < length [Live [1, 2, 3 :: real]]
   \<and> [Live [1, 2, 3 :: real]] ! 0 = Live [1, 2, 3]
   \<and> HeapStorage_alloc (Fresh (\<lambda>i. 7)) 8 2
        \<lparr>len = 3, alloced_size = 32, storage_data = Heap 0\<rparr> [Live [1, 2, 3 :: real]]
      = Inr (True, \<lparr>len = 2, alloced_size = 16, storage_data = Heap 1\<rparr>,
             [Released, Live [7, 7]])
   \<and> HeapStorage_alloc (Fresh (\<lambda>i. 7)) 8 2305843009213693952
        \<lparr>len = 3, alloced_size = 32, storage_data = Heap 0\<rparr> [Live [1, 2, 3 :: real]]
      = Inr (True,
             \<lparr>len = 2305843009213693952, alloced_size = 0, storage_data = Heap 1\<rparr>,
             [Released, Live []])
   \<and> \<not> isAlloced \<lparr>dims = [2], staticData = [4, 5 :: real], heapData = Indeterminate,
                  data = Null, tsize = 0, tshape = [0]\<rparr>
   \<and> 0 < ctSize \<lparr>dims = [2], staticData = [4, 5 :: real], heapData = Indeterminate,
                  data = Null, tsize = 0, tshape = [0]\<rparr>
   \<and> (\<exists>t'. alloc OutOfMemory 8 [0]
              \<lparr>dims = [2], staticData = [4, 5 :: real], heapData = Indeterminate,
                data = Null, tsize = 0, tshape = [0]\<rparr> [] = Inr (t', [])
         \<and> isAlloced t' \<and> tsize t' = 2 \<and> tshape t' = [2] \<and> elements t' [] = Some [0, 0])"
proof -
  let ?t = "\<lparr>dims = [0], staticData = [7 :: real], heapData = Heap 0, data = Heap 0,
              tsize = 3, tshape = [3]\<rparr>"
  let ?u = "\<lparr>dims = [2], staticData = [4, 5 :: real], heapData = Indeterminate,
              data = Null, tsize = 0, tshape = [0]\<rparr>"
  let ?st = "\<lparr>len = 3, alloced_size = 32, storage_data = Heap 0\<rparr>"
  have p: "isAlloced ?t"
    by (simp add: isAlloced_def)
  have q: "storage_data ?st = Heap 0 \<and> (0 :: nat) < length [Live [1, 2, 3 :: real]]
           \<and> [Live [1, 2, 3 :: real]] ! 0 = Live [1, 2, 3]"
    by simp
  have r: "\<not> isAlloced ?u \<and> 0 < ctSize ?u \<and> ctSize ?u \<le> length (staticData ?u)"
    by (simp add: isAlloced_def ctSize_def extent_product_simps)
  have c2: "ctSize ?u = 2"
    by (simp add: ctSize_def extent_product_simps)
  note i1 = C6_alloc_when_allocated
    [where t = ?t and env = OutOfMemory and sh = "[5]" and h = "[Live [1, 2, 3]]"
       and st = ?st and a = 0 and xs = "[1, 2, 3]" and c = "\<lambda>i. 7" and sizeofT = 8 and m = 2
       and n = 0 and s = "\<lparr>inline_data = []\<rparr>"]
  note i2 = C6_alloc_when_allocated
    [where t = ?u and env = OutOfMemory and sh = "[0]" and h = "[]"
       and st = ?st and a = 0 and xs = "[]" and c = "\<lambda>i. 7" and sizeofT = 8 and m = 2
       and n = 0 and s = "\<lparr>inline_data = []\<rparr>"]
  note i3 = C6_alloc_when_allocated
    [where t = ?t and env = OutOfMemory and sh = "[5]" and h = "[Live [1, 2, 3]]"
       and st = ?st and a = 0 and xs = "[1, 2, 3]" and c = "\<lambda>i. 7" and sizeofT = 8
       and m = 2305843009213693952 and n = 0 and s = "\<lparr>inline_data = []\<rparr>"]
  have A: "alloc OutOfMemory 8 [5] ?t [Live [1, 2, 3]] = Inr (?t, [Live [1, 2, 3]])"
    using i1 p by blast
  have B: "HeapStorage_alloc (Fresh (\<lambda>i. 7)) 8 2 ?st [Live [1, 2, 3 :: real]]
      = Inr (True, \<lparr>len = 2, alloced_size = 16, storage_data = Heap 1\<rparr>,
             [Released, Live [7, 7]])"
    using i1 q by (auto simp: storage_bytes_examples map_replicate_const replicate_2)
  have B': "HeapStorage_alloc (Fresh (\<lambda>i. 7)) 8 2305843009213693952 ?st
        [Live [1, 2, 3 :: real]]
      = Inr (True,
             \<lparr>len = 2305843009213693952, alloced_size = 0, storage_data = Heap 1\<rparr>,
             [Released, Live []])"
    using i3 q by (auto simp: storage_bytes_examples)
  have C: "\<exists>t'. alloc OutOfMemory 8 [0] ?u [] = Inr (t', [])
         \<and> isAlloced t' \<and> tsize t' = 2 \<and> tshape t' = [2] \<and> elements t' [] = Some [0, 0]"
    using i2 r by (auto simp: c2 replicate_2)
  from p q r A B B' C show ?thesis by simp
qed

text \<open>
  Claim C5 (assignment between containers): with an allocated destination and matching
  realized shapes, \<open>dest = src\<close> copies every element and later writes to \<open>src\<close> do not
  change \<open>dest\<close>; with different realized shapes it fails with a shape-mismatch error
  and \<open>dest\<close> is unchanged; an unallocated, dynamically sized destination is first
  allocated to the shape of \<open>src\<close>.

  The copy assignment between containers of one static type does all of this (lemma
  \<open>Tensor_copy_assignment\<close>). The member template of \<open>operator=\<close>, which takes a source of
  another static type, has the same body without the allocation branch. A freed
  \<open>Tensor<T, 0>\<close> assigned from an inline \<open>Tensor<T, 3>\<close> is checked with its cleared shape
  \<open>(0)\<close> against \<open>(3)\<close> and the assignment throws; a never-allocated one is checked with
  whatever its uninitialised \<open>_shape\<close> holds, and when that happens to be \<open>(3)\<close> the
  \<open>memcpy\<close> writes through the null \<open>data\<close>. The same freed destination assigned from a
  \<open>Tensor<T, 0>\<close> is allocated and filled.
\<close>

theorem C5_unallocated_destination_of_other_type_is_not_allocated:
  "\<not> isAlloced \<lparr>dims = [0], staticData = [7 :: real], heapData = Heap 0, data = Null,
                 tsize = 0, tshape = [0]\<rparr> \<and>
   ctSize \<lparr>dims = [0], staticData = [7 :: real], heapData = Heap 0, data = Null,
           tsize = 0, tshape = [0]\<rparr> = 0 \<and>
   valid [Released]
     \<lparr>dims = [3], staticData = [1, 2, 3 :: real], heapData = Indeterminate, data = Static,
       tsize = 3, tshape = [3]\<rparr> \<and>
   Tensor_assign_other
     \<lparr>dims = [0], staticData = [7 :: real], heapData = Heap 0, data = Null,
       tsize = 0, tshape = [0]\<rparr>
     \<lparr>dims = [3], staticData = [1, 2, 3], heapData = Indeterminate, data = Static,
       tsize = 3, tshape = [3]\<rparr>
     [Released]
   = Inl (SizeMismatch [0] [3],
          \<lparr>dims = [0], staticData = [7], heapData = Heap 0, data = Null,
            tsize = 0, tshape = [0]\<rparr>,
          [Released]) \<and>
   Tensor_assign_other
     (raw_Tensor [0] (\<lambda>i. 7 :: real) (\<lambda>i. 3))
     \<lparr>dims = [3], staticData = [1, 2, 3], heapData = Indeterminate, data = Static,
       tsize = 3, tshape = [3]\<rparr>
     []
   = Inl (NullPointer, raw_Tensor [0] (\<lambda>i. 7) (\<lambda>i. 3), []) \<and>
   (\<exists>dest' h'.
      Tensor_assign (Fresh (\<lambda>i. 5)) 8
        \<lparr>dims = [0], staticData = [7], heapData = Heap 0, data = Null,
          tsize = 0, tshape = [0]\<rparr>
        \<lparr>dims = [0], staticData = [7], heapData = Heap 1, data = Heap 1,
          tsize = 2, tshape = [2]\<rparr>
        [Released, Live [1, 2 :: real]] = Inr (dest', h') \<and>
      tshape dest' = [2] \<and> data dest' = Heap 2 \<and> elements dest' h' = Some [1, 2])"
proof -
  let ?f = "\<lparr>dims = [0], staticData = [7 :: real], heapData = Heap 0, data = Null,
              tsize = 0, tshape = [0]\<rparr>"
  let ?s3 = "\<lparr>dims = [3], staticData = [1, 2, 3 :: real], heapData = Indeterminate,
               data = Static, tsize = 3, tshape = [3]\<rparr>"
  let ?s2 = "\<lparr>dims = [0], staticData = [7 :: real], heapData = Heap 1, data = Heap 1,
               tsize = 2, tshape = [2]\<rparr>"
  let ?hf = "[Released, Live [1, 2 :: real]]"
  have a: "\<not> isAlloced ?f \<and> ctSize ?f = 0 \<and> valid [Released] ?s3"
    by (simp add: isAlloced_def ctSize_def extent_product_simps valid_def)
  have b: "Tensor_assign_other ?f ?s3 [Released] = Inl (SizeMismatch [0] [3], ?f, [Released])"
    by (simp add: Tensor_assign_other_mismatch)
  have c: "Tensor_assign_other (raw_Tensor [0] (\<lambda>i. 7 :: real) (\<lambda>i. 3)) ?s3 []
             = Inl (NullPointer, raw_Tensor [0] (\<lambda>i. 7) (\<lambda>i. 3), [])"
    by (simp add: Tensor_assign_other_match raw_Tensor_def memcpy_from_def buffer_def)
  have h3: "\<not> isAlloced ?f" "ctSize ?f = 0" "dims ?f = dims ?s2" "valid ?hf ?s2"
    "tsize ?s2 \<le> allocedBytes 8 (tsize ?s2) div 8"
    by (simp_all add: isAlloced_def valid_def ctSize_def extent_product_simps
        allocedBytes_examples)
  have es: "elements ?s2 ?hf = Some [1, 2]"
    by (simp add: elements_def buffer_def)
  from Tensor_assign_unallocated [OF h3, of "\<lambda>i. 5"] es
  have d: "\<exists>dest' h'. Tensor_assign (Fresh (\<lambda>i. 5)) 8 ?f ?s2 ?hf = Inr (dest', h') \<and>
      tshape dest' = [2] \<and> data dest' = Heap 2 \<and> elements dest' h' = Some [1, 2]"
    by auto
  from a b c d show ?thesis by simp
qed

text \<open>
  Claim C9 (copy and move ownership): a copy is independent of its original; a move
  transfers the heap buffer (or duplicates inline data) and leaves the source empty,
  with \<open>size()\<close> 0 and unallocated.

  For allocated containers this is what the code does (lemmas \<open>Tensor_copy_independent\<close>,
  \<open>Tensor_move_transfers\<close>, \<open>Tensor_move_assign_transfers\<close>). Move assignment starts with
  \<open>free()\<close> on the destination, which hands \<open>dataHolder.heapData\<close> to \<open>std::free\<close>
  whatever it holds. On a default-constructed \<open>Tensor<double, 0, 0> t\<close> that member was
  never written, and on a destination that was freed before it still holds the released
  block: \<open>t = Tensor<double, 0, 0>({2, 2})\<close>, and after \<open>t.free()\<close>
  \<open>t = Tensor<double, 0, 0>({3, 1})\<close>, free a pointer that is not a live block, and
  nothing is transferred. The same assignment into an allocated destination releases the
  destination's block, takes the block of the source and leaves the source empty.
\<close>

theorem C9_move_assign_into_unowned_destination:
  "Tensor_default (Fresh (\<lambda>i. 5)) 8 [0, 0] (\<lambda>i. 7) (\<lambda>i. 9) []
     = Inr (\<lparr>dims = [0, 0], staticData = [7 :: real], heapData = Indeterminate, data = Null,
              tsize = 0, tshape = [9, 9]\<rparr>, []) \<and>
   Tensor_sized (Fresh (\<lambda>i. 5)) 8 [0, 0] (\<lambda>i. 7) (\<lambda>i. 9) [2, 2] []
     = Inr (\<lparr>dims = [0, 0], staticData = [7 :: real], heapData = Heap 0, data = Heap 0,
              tsize = 4, tshape = [2, 2]\<rparr>, [Live [0, 0, 0, 0]]) \<and>
   Tensor_move_assign False
       \<lparr>dims = [0, 0], staticData = [7 :: real], heapData = Indeterminate, data = Null,
         tsize = 0, tshape = [9, 9]\<rparr>
       \<lparr>dims = [0, 0], staticData = [7], heapData = Heap 0, data = Heap 0,
         tsize = 4, tshape = [2, 2]\<rparr>
       [Live [0, 0, 0, 0]]
     = Inl InvalidFree \<and>
   free \<lparr>dims = [0, 0], staticData = [7 :: real], heapData = Heap 0, data = Heap 0,
          tsize = 4, tshape = [2, 2]\<rparr> [Live [2, 2, 2, 2]]
     = Inr (\<lparr>dims = [0, 0], staticData = [7], heapData = Heap 0, data = Null,
              tsize = 0, tshape = [0, 0]\<rparr>, [Released]) \<and>
   Tensor_move_assign False
       \<lparr>dims = [0, 0], staticData = [7 :: real], heapData = Heap 0, data = Null,
         tsize = 0, tshape = [0, 0]\<rparr>
       \<lparr>dims = [0, 0], staticData = [7], heapData = Heap 1, data = Heap 1,
         tsize = 3, tshape = [3, 1]\<rparr>
       [Released, Live [0, 0, 0, 5]]
     = Inl InvalidFree \<and>
   Tensor_move_assign False
       \<lparr>dims = [0, 0], staticData = [7 :: real], heapData = Heap 0, data = Heap 0,
         tsize = 4, tshape = [2, 2]\<rparr>
       \<lparr>dims = [0, 0], staticData = [7], heapData = Heap 1, data = Heap 1,
         tsize = 3, tshape = [3, 1]\<rparr>
       [Live [2, 2, 2, 2], Live [0, 0, 0, 5]]
     = Inr (\<lparr>dims = [0, 0], staticData = [7], heapData = Heap 1, data = Heap 1,
              tsize = 3, tshape = [3, 1]\<rparr>,
            \<lparr>dims = [0, 0], staticData = [7], heapData = Null, data = Null,
              tsize = 0, tshape = [0, 0]\<rparr>,
            [Released, Live [0, 0, 0, 5]])"
proof (intro conjI)
  let ?raw = "raw_Tensor [0, 0] (\<lambda>i. 7 :: real) (\<lambda>i. 9)"
  have e: "extent_product [0, 0] = 0" "extent_product [2, 2] = 4"
    by (simp_all add: extent_product_simps)
  have raw: "\<not> isAlloced ?raw" "ctSize ?raw = 0"
    by (simp_all add: raw_Tensor_facts e)
  have rawv: "?raw = \<lparr>dims = [0, 0], staticData = [7 :: real], heapData = Indeterminate,
                      data = Null, tsize = 0, tshape = [9, 9]\<rparr>"
    by (simp add: raw_Tensor_def e upt_2)
  have fit: "extent_product [2, 2] \<le> allocedBytes 8 (extent_product [2, 2]) div 8"
    by (simp add: e allocedBytes_examples)
  show "Tensor_default (Fresh (\<lambda>i. 5)) 8 [0, 0] (\<lambda>i. 7) (\<lambda>i. 9) []
     = Inr (\<lparr>dims = [0, 0], staticData = [7 :: real], heapData = Indeterminate, data = Null,
              tsize = 0, tshape = [9, 9]\<rparr>, [])"
    by (simp add: Tensor_default_def Let_def raw(2) rawv [symmetric])
  show "Tensor_sized (Fresh (\<lambda>i. 5)) 8 [0, 0] (\<lambda>i. 7) (\<lambda>i. 9) [2, 2] []
     = Inr (\<lparr>dims = [0, 0], staticData = [7 :: real], heapData = Heap 0, data = Heap 0,
              tsize = 4, tshape = [2, 2]\<rparr>, [Live [0, 0, 0, 0]])"
    unfolding Tensor_sized_def alloc_unallocated_dynamic [OF raw fit]
    by (simp add: rawv e replicate_4 allocedBytes_examples)
  show "Tensor_move_assign False
       \<lparr>dims = [0, 0], staticData = [7 :: real], heapData = Indeterminate, data = Null,
         tsize = 0, tshape = [9, 9]\<rparr>
       \<lparr>dims = [0, 0], staticData = [7], heapData = Heap 0, data = Heap 0,
         tsize = 4, tshape = [2, 2]\<rparr>
       [Live [0, 0, 0, 0]]
     = Inl InvalidFree"
    by (rule Tensor_move_assign_stale_destination) (simp_all add: ctSize_def e)
  show "free \<lparr>dims = [0, 0], staticData = [7 :: real], heapData = Heap 0, data = Heap 0,
          tsize = 4, tshape = [2, 2]\<rparr> [Live [2, 2, 2, 2]]
     = Inr (\<lparr>dims = [0, 0], staticData = [7], heapData = Heap 0, data = Null,
              tsize = 0, tshape = [0, 0]\<rparr>, [Released])"
    by (simp add: free_def std_free_def ctSize_def e cleared_def replicate_2)
  show "Tensor_move_assign False
       \<lparr>dims = [0, 0], staticData = [7 :: real], heapData = Heap 0, data = Null,
         tsize = 0, tshape = [0, 0]\<rparr>
       \<lparr>dims = [0, 0], staticData = [7], heapData = Heap 1, data = Heap 1,
         tsize = 3, tshape = [3, 1]\<rparr>
       [Released, Live [0, 0, 0, 5]]
     = Inl InvalidFree"
    by (rule Tensor_move_assign_stale_destination) (simp_all add: ctSize_def e)
  show "Tensor_move_assign False
       \<lparr>dims = [0, 0], staticData = [7 :: real], heapData = Heap 0, data = Heap 0,
         tsize = 4, tshape = [2, 2]\<rparr>
       \<lparr>dims = [0, 0], staticData = [7], heapData = Heap 1, data = Heap 1,
         tsize = 3, tshape = [3, 1]\<rparr>
       [Live [2, 2, 2, 2], Live [0, 0, 0, 5]]
     = Inr (\<lparr>dims = [0, 0], staticData = [7], heapData = Heap 1, data = Heap 1,
              tsize = 3, tshape = [3, 1]\<rparr>,
            \<lparr>dims = [0, 0], staticData = [7], heapData = Null, data = Null,
              tsize = 0, tshape = [0, 0]\<rparr>,
            [Released, Live [0, 0, 0, 5]])"
    by (simp add: Tensor_move_assign_def free_def std_free_def ctSize_def e cleared_def
        replicate_2 Let_def)
qed

end
